theory Spec2Isabelle
  imports Complex_Main
begin

section \<open>Values exchanged with the oracle\<close>

text \<open>
  The decision returned by the oracle is whatever \<^verbatim>\<open>json.loads\<close> produces: a Python
  value built from \<^verbatim>\<open>None\<close>, booleans, integers, floats, strings, lists and
  dictionaries. A dictionary is kept as an association list read with \<open>map_of\<close>.
  A Python float is represented by a rational number; the validator never inspects it.
\<close>

datatype json =
    JNull
  | JBool bool
  | JInt int
  | JFloat rat
  | JStr string
  | JList "json list"
  | JDict "(string \<times> json) list"

text \<open>\<^verbatim>\<open>d.get(k)\<close>: the value stored under \<open>k\<close>, or \<^verbatim>\<open>None\<close> when the key is absent.\<close>

definition dict_get :: "(string \<times> json) list \<Rightarrow> string \<Rightarrow> json" where
  "dict_get d k = (case map_of d k of None \<Rightarrow> JNull | Some v \<Rightarrow> v)"

text \<open>
  \<^verbatim>\<open>isinstance(v, int)\<close>: \<^verbatim>\<open>bool\<close> is a subclass of \<^verbatim>\<open>int\<close> in Python, so a boolean
  passes the test and compares as 0 or 1.
\<close>

fun isinstance_int :: "json \<Rightarrow> bool" where
  "isinstance_int (JInt i) = True"
| "isinstance_int (JBool b) = True"
| "isinstance_int v = False"

fun int_value :: "json \<Rightarrow> int" where
  "int_value (JInt i) = i"
| "int_value (JBool b) = (if b then 1 else 0)"
| "int_value v = 0"

section \<open>Candidate rows\<close>

text \<open>
  The dataclasses \<^verbatim>\<open>RowMove\<close> and \<^verbatim>\<open>RowSwitch\<close>. Both have fields called
  \<^verbatim>\<open>kind\<close> and \<^verbatim>\<open>index\<close>; the record fields carry the prefix \<open>m_\<close> or \<open>s_\<close> to keep
  them apart. The accuracy is a Python float, represented by a rational number.
\<close>

record row_move =
  m_kind :: string
  m_index :: int
  m_id :: string
  m_name :: string
  m_type :: string
  m_base_power :: int
  m_accuracy :: rat
  m_priority :: int
  m_category :: string
  m_pp :: int
  m_is_stab :: bool

record row_switch =
  s_kind :: string
  s_index :: int
  s_species :: string
  s_types :: "string list"
  s_hp_pct :: int
  s_status :: "string option"

text \<open>The table handed to the oracle and to the validator: \<^verbatim>\<open>asdict\<close> of either row.\<close>

datatype row = Move_row row_move | Switch_row row_switch

fun row_kind :: "row \<Rightarrow> string" where
  "row_kind (Move_row r) = m_kind r"
| "row_kind (Switch_row r) = s_kind r"

section \<open>State summary\<close>

record mon_summary =
  ms_species :: string
  ms_types :: "string list"
  ms_hp_pct :: "int option"
  ms_status :: "string option"

record state_summary =
  st_turn :: int
  st_force_switch :: bool
  st_my_active :: mon_summary
  st_opp_active :: mon_summary
  st_weather :: string
  st_terrain :: string

section \<open>Decision validator\<close>

text \<open>
  The reason code returned beside the verdict. \<open>Bad_action act\<close> stands for the string
  \<^verbatim>\<open>f"bad_action:{act}"\<close>, \<open>No_reason\<close> for the empty string of a passing verdict.
\<close>

datatype reason =
    Not_dict
  | Bad_action json
  | Index_not_int
  | Must_switch
  | Index_out_of_range_move
  | Index_out_of_range_switch
  | No_reason

definition n_moves :: "row list \<Rightarrow> int" where
  "n_moves rows = int (length (filter (\<lambda>r. row_kind r = ''move'') rows))"

definition n_switches :: "row list \<Rightarrow> int" where
  "n_switches rows = int (length (filter (\<lambda>r. row_kind r = ''switch'') rows))"

definition allowed_actions :: "json set" where
  "allowed_actions = {JStr ''move'', JStr ''switch'', JStr ''force_switch''}"

fun validate_decision :: "json \<Rightarrow> row list \<Rightarrow> state_summary \<Rightarrow> bool \<times> reason" where
  "validate_decision (JDict dec) rows state =
     (let act = dict_get dec ''action'';
          idx = dict_get dec ''index''
      in if act \<notin> allowed_actions then (False, Bad_action act)
         else if \<not> isinstance_int idx then (False, Index_not_int)
         else if st_force_switch state \<and> act = JStr ''move'' then (False, Must_switch)
         else if act \<in> {JStr ''move'', JStr ''force_switch''}
                 \<and> (int_value idx < 0 \<or> int_value idx \<ge> n_moves rows)
           then (False, Index_out_of_range_move)
         else if act = JStr ''switch''
                 \<and> (int_value idx < 0 \<or> int_value idx \<ge> n_switches rows)
           then (False, Index_out_of_range_switch)
         else (True, No_reason))"
| "validate_decision dec rows state = (False, Not_dict)"

section \<open>Exceptions\<close>

text \<open>
  The exceptions the pipeline raises, by class and message. \<open>Reason r\<close> is the message of
  the \<^verbatim>\<open>ValueError(err)\<close> raised for a rejected decision; \<open>Api_error\<close> stands for
  whatever the oracle service call raises; \<open>IndexError\<close> is a list read out of range and
  \<open>KeyError\<close> a dictionary read of an absent key.
\<close>

datatype errmsg =
    Forced_bad_output
  | No_openai_client
  | No_json_object_found
  | Max_of_empty
  | Reason reason

datatype exn =
    ValueError errmsg
  | RuntimeError errmsg
  | TypeError
  | IndexError
  | KeyError
  | Api_error

section \<open>Python primitives\<close>

text \<open>\<^verbatim>\<open>xs[i]\<close>: a negative index counts from the end; out of range raises.\<close>

definition py_index :: "'a list \<Rightarrow> int \<Rightarrow> exn + 'a" where
  "py_index xs i =
     (let k = (if i < 0 then i + int (length xs) else i)
      in if k < 0 \<or> int (length xs) \<le> k then Inl IndexError else Inr (xs ! nat k))"

text \<open>\<^verbatim>\<open>d[k]\<close> on a dictionary.\<close>

definition dict_item :: "(string \<times> json) list \<Rightarrow> string \<Rightarrow> exn + json" where
  "dict_item d k = (case map_of d k of None \<Rightarrow> Inl KeyError | Some v \<Rightarrow> Inr v)"

text \<open>
  \<^verbatim>\<open>max(xs, key=f)\<close>: the running maximum is replaced only by a strictly larger key, so
  the first maximal element wins; an empty sequence raises \<^verbatim>\<open>ValueError\<close>.
\<close>

fun max_by :: "('a \<Rightarrow> 'b::linorder) \<Rightarrow> 'a \<Rightarrow> 'a list \<Rightarrow> 'a" where
  "max_by key best [] = best"
| "max_by key best (x # xs) = max_by key (if key best < key x then x else best) xs"

definition py_max_key :: "('a \<Rightarrow> 'b::linorder) \<Rightarrow> 'a list \<Rightarrow> exn + 'a" where
  "py_max_key key xs =
     (case xs of [] \<Rightarrow> Inl (ValueError Max_of_empty) | x # rest \<Rightarrow> Inr (max_by key x rest))"

text \<open>\<^verbatim>\<open>str(n)\<close> for a non-negative integer, as used in \<^verbatim>\<open>f"move{i}"\<close>.\<close>

definition digit_char :: "nat \<Rightarrow> char" where
  "digit_char d = char_of (48 + d)"

function str_nat :: "nat \<Rightarrow> string" where
  "str_nat n = (if n < 10 then [digit_char n] else str_nat (n div 10) @ [digit_char (n mod 10)])"
  by pat_completeness auto
termination
  by (relation "measure (\<lambda>n. n)") auto

text \<open>\<^verbatim>\<open>s.lower()\<close> on the ASCII letters; every other character is left as it is.\<close>

definition lower_char :: "char \<Rightarrow> char" where
  "lower_char c =
     (let n = (of_char c :: nat) in if 65 \<le> n \<and> n \<le> 90 then char_of (n + 32) else c)"

definition lower :: "string \<Rightarrow> string" where
  "lower s = map lower_char s"

text \<open>\<^verbatim>\<open>s or d\<close> on strings: the empty string is falsy.\<close>

definition str_or :: "string \<Rightarrow> string \<Rightarrow> string" where
  "str_or s d = (if s = [] then d else s)"

text \<open>
  \<^verbatim>\<open>s.strip()\<close>: leading and trailing whitespace removed. The characters are those
  \<^verbatim>\<open>str.isspace\<close> accepts in the ASCII range (9 to 13, 28 to 32).
\<close>

definition isspace :: "char \<Rightarrow> bool" where
  "isspace c = (let n = (of_char c :: nat) in (9 \<le> n \<and> n \<le> 13) \<or> (28 \<le> n \<and> n \<le> 32))"

definition strip :: "string \<Rightarrow> string" where
  "strip s = rev (dropWhile isspace (rev (dropWhile isspace s)))"

text \<open>
  \<^verbatim>\<open>int(round(q))\<close>: Python rounds a half to the even neighbour. The quotient is taken
  exactly here, where Python rounds it to a double first.
\<close>

definition py_round :: "rat \<Rightarrow> int" where
  "py_round q =
     (let f = \<lfloor>q\<rfloor>; d = q - of_int f
      in if d < 1 / 2 then f else if 1 / 2 < d then f + 1 else if even f then f else f + 1)"

section \<open>Battle objects read by the encoder\<close>

text \<open>
  The attributes of the battle client's objects that the encoder reads. An attribute read
  through \<^verbatim>\<open>getattr\<close> with a default is an option (\<open>None\<close>: the attribute is absent);
  an enum member is represented by its \<^verbatim>\<open>name\<close>. The accuracy of a move is kept as
  the raw Python value, since the encoder inspects it.
\<close>

datatype pyval = PyNone | PyBool bool | PyInt int | PyFloat rat | PyStr string

record pokemon =
  p_species :: "string option"
  p_name :: "string option"
  p_types :: "string option list"
  p_current_hp :: "int option"
  p_max_hp :: "int option"
  p_status :: "string option"

record move =
  mv_id :: "string option"
  mv_name :: "string option"
  mv_type :: "string option"
  mv_base_power :: int
  mv_accuracy :: pyval
  mv_priority :: int
  mv_damage_class :: "string option"
  mv_current_pp :: "int option"
  mv_max_pp :: "int option"

record battle =
  active_pokemon :: "pokemon option"
  opponent_active_pokemon :: "pokemon option"
  available_moves :: "move list"
  available_switches :: "pokemon list"
  weather :: "string option"
  terrain :: "string option"
  turn :: int
  force_switch :: bool

section \<open>Row encoder\<close>

text \<open>An element of \<^verbatim>\<open>obj.types\<close> without a \<^verbatim>\<open>name\<close> (such as \<^verbatim>\<open>None\<close>) is skipped.\<close>

definition safe_types :: "pokemon \<Rightarrow> string list" where
  "safe_types obj = List.map_filter (\<lambda>t. t) (p_types obj)"

definition hp_pct :: "pokemon \<Rightarrow> int" where
  "hp_pct p =
     (case (p_current_hp p, p_max_hp p) of
        (Some cur, Some mx) \<Rightarrow>
          if mx = 0 then 100
          else max 0 (min 100 (py_round (of_int (100 * cur) / of_int mx)))
      | _ \<Rightarrow> 100)"

definition status :: "pokemon \<Rightarrow> string option" where
  "status p = p_status p"

text \<open>
  \<^verbatim>\<open>acc in (None, 0)\<close> compares with \<^verbatim>\<open>==\<close>, so \<^verbatim>\<open>False\<close> and \<^verbatim>\<open>0.0\<close> count as 0.
  Comparing a string with 1 raises \<^verbatim>\<open>TypeError\<close>, which the handler turns into 1.0.
\<close>

fun move_accuracy_raw :: "pyval \<Rightarrow> rat" where
  "move_accuracy_raw PyNone = 1"
| "move_accuracy_raw (PyBool b) = 1"
| "move_accuracy_raw (PyInt i) =
     (if i = 0 then 1 else if i \<le> 1 then of_int i else of_int i / 100)"
| "move_accuracy_raw (PyFloat x) =
     (if x = 0 then 1 else if x \<le> 1 then x else x / 100)"
| "move_accuracy_raw (PyStr s) = 1"

definition move_accuracy :: "move \<Rightarrow> rat" where
  "move_accuracy m = move_accuracy_raw (mv_accuracy m)"

definition move_base_power :: "move \<Rightarrow> int" where
  "move_base_power m = max 0 (mv_base_power m)"

definition is_stab :: "move \<Rightarrow> pokemon option \<Rightarrow> bool" where
  "is_stab mv me_active =
     (case (me_active, mv_type mv) of
        (Some me, Some ty) \<Rightarrow> ty \<in> set (safe_types me)
      | _ \<Rightarrow> False)"

definition category :: "move \<Rightarrow> string" where
  "category m = (case mv_damage_class m of Some c \<Rightarrow> c | None \<Rightarrow> ''STATUS'')"

definition priority :: "move \<Rightarrow> int" where
  "priority m = mv_priority m"

definition move_row :: "nat \<Rightarrow> move \<Rightarrow> pokemon option \<Rightarrow> row_move" where
  "move_row i m me_active =
     \<lparr> m_kind = ''move'',
       m_index = int i,
       m_id = lower (case mv_id m of Some s \<Rightarrow> s
                     | None \<Rightarrow> (case mv_name m of Some s \<Rightarrow> s | None \<Rightarrow> ''move'' @ str_nat i)),
       m_name = lower (str_or (case mv_name m of Some s \<Rightarrow> s
                     | None \<Rightarrow> (case mv_id m of Some s \<Rightarrow> s | None \<Rightarrow> ''move'' @ str_nat i))
                   (''move'' @ str_nat i)),
       m_type = (case mv_type m of Some ty \<Rightarrow> ty | None \<Rightarrow> ''UNKNOWN''),
       m_base_power = move_base_power m,
       m_accuracy = move_accuracy m,
       m_priority = priority m,
       m_category = category m,
       m_pp = (case mv_current_pp m of Some n \<Rightarrow> n
               | None \<Rightarrow> (case mv_max_pp m of Some n \<Rightarrow> n | None \<Rightarrow> 0)),
       m_is_stab = is_stab m me_active \<rparr>"

definition switch_row :: "nat \<Rightarrow> pokemon \<Rightarrow> row_switch" where
  "switch_row i p =
     \<lparr> s_kind = ''switch'',
       s_index = int i,
       s_species = lower (str_or (case p_species p of Some s \<Rightarrow> s
                     | None \<Rightarrow> (case p_name p of Some s \<Rightarrow> s | None \<Rightarrow> ''p'' @ str_nat i))
                   (''p'' @ str_nat i)),
       s_types = safe_types p,
       s_hp_pct = hp_pct p,
       s_status = status p \<rparr>"

section \<open>Scoring heuristic\<close>

text \<open>\<^verbatim>\<open>x or 0\<close> on a number.\<close>

definition num_or :: "'a::zero \<Rightarrow> 'a \<Rightarrow> 'a" where
  "num_or x d = (if x = 0 then d else x)"

definition score_move_row :: "row_move \<Rightarrow> rat" where
  "score_move_row r =
     of_int (num_or (m_base_power r) 0)
     * max 0 (min 1 (num_or (m_accuracy r) 0))
     * (if m_is_stab r then 3 / 2 else 1)"

section \<open>JSON extraction\<close>

text \<open>
  \<^verbatim>\<open>json.loads\<close> belongs to the Python library, not to this program: it is the parameter
  \<open>loads\<close>, which returns \<open>None\<close> where the library raises.

  The inner loop of \<^verbatim>\<open>_extract_json\<close>: \<open>brace_chunk rest depth seen\<close> reads the text
  from position \<^verbatim>\<open>end\<close> on, where \<open>seen\<close> is \<^verbatim>\<open>text[start:end]\<close>. It yields
  \<^verbatim>\<open>text[start:end + 1]\<close> at the first closing brace that brings the depth back to 0,
  and nothing when the text ends before.
\<close>

fun brace_chunk :: "string \<Rightarrow> int \<Rightarrow> string \<Rightarrow> string option" where
  "brace_chunk [] depth seen = None"
| "brace_chunk (ch # rest) depth seen =
     (if ch = CHR ''{'' then brace_chunk rest (depth + 1) (seen @ [ch])
      else if ch = CHR ''}'' then
        (if depth - 1 = 0 then Some (seen @ [ch])
         else brace_chunk rest (depth - 1) (seen @ [ch]))
      else brace_chunk rest depth (seen @ [ch]))"

text \<open>
  The outer loop, on the text from position \<^verbatim>\<open>start\<close> on. A chunk that does not parse
  as a dictionary ends the inner loop only: the scan goes on at the next position.
\<close>

fun scan_braces :: "(string \<Rightarrow> json option) \<Rightarrow> string \<Rightarrow> exn + (string \<times> json) list" where
  "scan_braces loads [] = Inl (ValueError No_json_object_found)"
| "scan_braces loads (ch # rest) =
     (if ch \<noteq> CHR ''{'' then scan_braces loads rest
      else case brace_chunk (ch # rest) 0 [] of
             None \<Rightarrow> scan_braces loads rest
           | Some chunk \<Rightarrow>
               (case loads chunk of
                  Some (JDict obj) \<Rightarrow> Inr obj
                | _ \<Rightarrow> scan_braces loads rest))"

definition extract_json :: "(string \<Rightarrow> json option) \<Rightarrow> string \<Rightarrow> exn + (string \<times> json) list" where
  "extract_json loads text =
     (let text = strip text
      in case loads text of
           Some (JDict obj) \<Rightarrow> Inr obj
         | _ \<Rightarrow> scan_braces loads text)"

section \<open>The player\<close>

text \<open>
  A decision as the orchestrator uses it: the values under \<^verbatim>\<open>"action"\<close> and
  \<^verbatim>\<open>"index"\<close>, and where the advisory \<^verbatim>\<open>"reason"\<close> came from.
\<close>

datatype why =
    Oracle_reason json
  | Fallback_force_switch exn
  | Fallback_expected_damage exn
  | Fallback_default exn

record decision =
  d_action :: string
  d_index :: int
  d_reason :: why

text \<open>One line of the event log, with its payload.\<close>

datatype trace_event =
    Llm_forced_bad int
  | Fallback_exception int exn decision state_summary
  | Llm_bad_json int string exn state_summary
  | Llm_bad_decision int string "(string \<times> json) list" reason state_summary "row list"
  | Llm_ok int string "(string \<times> json) list" state_summary "row list"

text \<open>
  The module-level configuration read from the environment, and whether appending to the
  trace file succeeds (a failure is swallowed by \<^verbatim>\<open>_trace\<close>).
\<close>

record env =
  log_mode :: string
  trace_file :: "string option"
  trace_writable :: bool
  llm_force_bad_output :: bool

text \<open>
  The player object. The oracle service answers a request made of the state and the
  candidate rows with the message content (\<open>None\<close> when there is none) or raises.
\<close>

record llm_player =
  client :: "(state_summary \<Rightarrow> row list \<Rightarrow> exn + string option) option"
  debug :: bool

text \<open>
  What a turn can change: the battle object handed in by the battle client, and the
  lines of the trace file. Console output is not modelled.
\<close>

record world =
  w_battle :: battle
  w_trace :: "trace_event list"

definition trace :: "env \<Rightarrow> trace_event \<Rightarrow> world \<Rightarrow> world" where
  "trace e ev w =
     (case trace_file e of
        None \<Rightarrow> w
      | Some path \<Rightarrow>
          if path = [] then w
          else if trace_writable e then w\<lparr>w_trace := w_trace w @ [ev]\<rparr>
          else w)"

text \<open>The command handed back to the battle client.\<close>

datatype command =
    Create_order_move move
  | Create_order_switch pokemon
  | Choose_random_move

definition llm_decide ::
  "(string \<Rightarrow> json option) \<Rightarrow> env \<Rightarrow> llm_player \<Rightarrow> state_summary \<Rightarrow> row list \<Rightarrow> world
     \<Rightarrow> (exn + (string \<times> json) list) \<times> world" where
  "llm_decide loads e self state rows w =
     (if llm_force_bad_output e then
        (Inl (ValueError Forced_bad_output), trace e (Llm_forced_bad (st_turn state)) w)
      else case client self of
        None \<Rightarrow> (Inl (RuntimeError No_openai_client), w)
      | Some create \<Rightarrow>
          (case create state rows of
             Inl err \<Rightarrow> (Inl err, w)
           | Inr content \<Rightarrow>
               (let raw = (case content of None \<Rightarrow> [] | Some s \<Rightarrow> s)
                in case extract_json loads raw of
                     Inl err \<Rightarrow> (Inl err, trace e (Llm_bad_json (st_turn state) raw err state) w)
                   | Inr dec \<Rightarrow>
                       (let (ok, err) = validate_decision (JDict dec) rows state
                        in if \<not> ok then
                             (Inl (ValueError (Reason err)),
                              trace e (Llm_bad_decision (st_turn state) raw dec err state rows) w)
                           else
                             (Inr dec, trace e (Llm_ok (st_turn state) raw dec state rows) w)))))"

text \<open>The summary of one active Pokemon (\<^verbatim>\<open>dump_mon\<close>).\<close>

definition dump_mon :: "pokemon option \<Rightarrow> mon_summary" where
  "dump_mon po =
     (case po of
        None \<Rightarrow> \<lparr> ms_species = ''unknown'', ms_types = [], ms_hp_pct = None, ms_status = None \<rparr>
      | Some p \<Rightarrow>
          \<lparr> ms_species = lower (str_or (case p_species p of Some s \<Rightarrow> s
                              | None \<Rightarrow> (case p_name p of Some s \<Rightarrow> s | None \<Rightarrow> ''unknown''))
                            ''unknown''),
            ms_types = safe_types p,
            ms_hp_pct = Some (hp_pct p),
            ms_status = status p \<rparr>)"

definition encode_moves :: "battle \<Rightarrow> row_move list" where
  "encode_moves b =
     map (\<lambda>(i, m). move_row i m (active_pokemon b)) (List.enumerate 0 (available_moves b))"

definition encode_switches :: "battle \<Rightarrow> row_switch list" where
  "encode_switches b = map (\<lambda>(i, p). switch_row i p) (List.enumerate 0 (available_switches b))"

definition encode_state :: "battle \<Rightarrow> state_summary" where
  "encode_state b =
     \<lparr> st_turn = turn b,
       st_force_switch = force_switch b,
       st_my_active = dump_mon (active_pokemon b),
       st_opp_active = dump_mon (opponent_active_pokemon b),
       st_weather = (case weather b of Some n \<Rightarrow> if n = [] then ''none'' else n | None \<Rightarrow> ''none''),
       st_terrain = (case terrain b of Some n \<Rightarrow> if n = [] then ''none'' else n | None \<Rightarrow> ''none'') \<rparr>"

definition rows_for_llm :: "row_move list \<Rightarrow> row_switch list \<Rightarrow> row list" where
  "rows_for_llm move_rows switch_rows = map Move_row move_rows @ map Switch_row switch_rows"

text \<open>
  The handler of \<^verbatim>\<open>choose_move\<close>: the decision taken when the oracle stage raised
  \<open>err\<close>. \<^verbatim>\<open>move_rows[i]\<close> inside the key is read for \<open>i\<close> below the length only.
\<close>

definition fallback :: "state_summary \<Rightarrow> row_move list \<Rightarrow> row_switch list \<Rightarrow> exn \<Rightarrow> exn + decision" where
  "fallback state move_rows switch_rows err =
     (if st_force_switch state \<and> switch_rows \<noteq> [] then
        Inr \<lparr> d_action = ''switch'', d_index = 0, d_reason = Fallback_force_switch err \<rparr>
      else if move_rows \<noteq> [] then
        (case py_max_key (\<lambda>i. score_move_row (move_rows ! i)) [0 ..< length move_rows] of
           Inl e2 \<Rightarrow> Inl e2
         | Inr best_i \<Rightarrow>
             Inr \<lparr> d_action = ''move'', d_index = int best_i,
                   d_reason = Fallback_expected_damage err \<rparr>)
      else
        Inr \<lparr> d_action = ''move'', d_index = 0, d_reason = Fallback_default err \<rparr>)"

text \<open>
  Reading \<^verbatim>\<open>dec["action"]\<close> and \<^verbatim>\<open>dec["index"]\<close> of the dictionary the oracle stage
  returned. An absent key raises \<^verbatim>\<open>KeyError\<close>; a value that is not a string, or not an
  integer, is reported as \<^verbatim>\<open>TypeError\<close>. The validator has excluded all three.
\<close>

definition read_decision :: "(string \<times> json) list \<Rightarrow> exn + decision" where
  "read_decision dec =
     (case dict_item dec ''action'' of
        Inl err \<Rightarrow> Inl err
      | Inr act \<Rightarrow>
          (case dict_item dec ''index'' of
             Inl err \<Rightarrow> Inl err
           | Inr idx \<Rightarrow>
               (case act of
                  JStr a \<Rightarrow>
                    if isinstance_int idx then
                      Inr \<lparr> d_action = a, d_index = int_value idx,
                            d_reason = Oracle_reason (dict_get dec ''reason'') \<rparr>
                    else Inl TypeError
                | _ \<Rightarrow> Inl TypeError)))"

text \<open>
  The try statement of \<^verbatim>\<open>choose_move\<close>: the oracle stage, and the fallback with its trace
  line when that stage raised.
\<close>

definition decide ::
  "(string \<Rightarrow> json option) \<Rightarrow> env \<Rightarrow> llm_player \<Rightarrow> state_summary
     \<Rightarrow> row_move list \<Rightarrow> row_switch list \<Rightarrow> world \<Rightarrow> (exn + decision) \<times> world" where
  "decide loads e self state move_rows switch_rows w =
     (case llm_decide loads e self state (rows_for_llm move_rows switch_rows) w of
        (Inr dec, w1) \<Rightarrow> (read_decision dec, w1)
      | (Inl err, w1) \<Rightarrow>
          (case fallback state move_rows switch_rows err of
             Inl e2 \<Rightarrow> (Inl e2, w1)
           | Inr dec \<Rightarrow> (Inr dec, trace e (Fallback_exception (st_turn state) err dec state) w1)))"

text \<open>
  The name looked up for the \<^verbatim>\<open>[DECIDE]\<close> console line; the reads are guarded by a
  range test, and nothing is looked up when the log mode is \<^verbatim>\<open>none\<close>.
\<close>

definition decide_name :: "env \<Rightarrow> decision \<Rightarrow> row_move list \<Rightarrow> row_switch list \<Rightarrow> exn + string option" where
  "decide_name e dec move_rows switch_rows =
     (if log_mode e \<in> {''compact'', ''full''} then
        (if d_action dec = ''move'' then
           (if 0 \<le> d_index dec \<and> d_index dec < int (length move_rows) then
              (case py_index move_rows (d_index dec) of
                 Inl err \<Rightarrow> Inl err
               | Inr r \<Rightarrow> Inr (Some (m_name r)))
            else Inr (Some ''?''))
         else
           (if 0 \<le> d_index dec \<and> d_index dec < int (length switch_rows) then
              (case py_index switch_rows (d_index dec) of
                 Inl err \<Rightarrow> Inl err
               | Inr r \<Rightarrow> Inr (Some (s_species r)))
            else Inr (Some ''?'')))
      else Inr None)"

text \<open>The last part of \<^verbatim>\<open>choose_move\<close>: building the order out of the decision.\<close>

definition emit ::
  "decision \<Rightarrow> row_move list \<Rightarrow> row_switch list \<Rightarrow> move list \<Rightarrow> pokemon list \<Rightarrow> exn + command" where
  "emit dec move_rows switch_rows moves switches =
     (if d_action dec \<in> {''move'', ''force_switch''} \<and> move_rows \<noteq> [] then
        (case py_index moves (max 0 (min (d_index dec) (int (length moves) - 1))) of
           Inl err \<Rightarrow> Inl err
         | Inr m \<Rightarrow> Inr (Create_order_move m))
      else if d_action dec = ''switch'' \<and> switch_rows \<noteq> [] then
        (case py_index switches (max 0 (min (d_index dec) (int (length switches) - 1))) of
           Inl err \<Rightarrow> Inl err
         | Inr p \<Rightarrow> Inr (Create_order_switch p))
      else if moves \<noteq> [] then
        (case py_index moves 0 of
           Inl err \<Rightarrow> Inl err
         | Inr m \<Rightarrow> Inr (Create_order_move m))
      else Inr Choose_random_move)"

definition choose_move ::
  "(string \<Rightarrow> json option) \<Rightarrow> env \<Rightarrow> llm_player \<Rightarrow> world \<Rightarrow> (exn + command) \<times> world" where
  "choose_move loads e self w =
     (let b = w_battle w;
          moves = available_moves b;
          switches = available_switches b;
          move_rows = encode_moves b;
          switch_rows = encode_switches b;
          state = encode_state b
      in case decide loads e self state move_rows switch_rows w of
           (Inl err, w1) \<Rightarrow> (Inl err, w1)
         | (Inr dec, w1) \<Rightarrow>
             (case decide_name e dec move_rows switch_rows of
                Inl err \<Rightarrow> (Inl err, w1)
              | Inr name \<Rightarrow> (emit dec move_rows switch_rows moves switches, w1)))"

section \<open>The scoring formula as the specification words it\<close>



section \<open>The extraction as a search over positions\<close>

text \<open>
  A second description of what \<^verbatim>\<open>_extract_json\<close> returns, worded over positions of the
  text instead of loops, to be compared with \<open>extract_json\<close>. \<open>brace_excess s\<close> is the
  number of opening braces of \<open>s\<close> minus the number of closing ones, the nesting depth
  after reading \<open>s\<close>. \<open>chunk_at t k\<close> is the shortest piece of \<open>t\<close> that starts at
  position \<open>k\<close> with an opening brace and has as many closing as opening braces.
  \<open>object_at loads t k\<close> is the dictionary that piece parses to. The extraction returns
  the whole stripped text when it parses to a dictionary, and otherwise the dictionary
  found at the first position that has one.
\<close>

definition brace_excess :: "string \<Rightarrow> int" where
  "brace_excess s =
     int (length (filter (\<lambda>c. c = CHR ''{'') s)) - int (length (filter (\<lambda>c. c = CHR ''}'') s))"

definition chunk_at :: "string \<Rightarrow> nat \<Rightarrow> string option" where
  "chunk_at t k =
     (if k < length t \<and> t ! k = CHR ''{'' then
        map_option (\<lambda>n. take n (drop k t))
          (List.find (\<lambda>n. brace_excess (take n (drop k t)) = 0) [1 ..< Suc (length t - k)])
      else None)"

definition object_at :: "(string \<Rightarrow> json option) \<Rightarrow> string \<Rightarrow> nat \<Rightarrow> (string \<times> json) list option" where
  "object_at loads t k =
     (case chunk_at t k of
        None \<Rightarrow> None
      | Some chunk \<Rightarrow> (case loads chunk of Some (JDict obj) \<Rightarrow> Some obj | _ \<Rightarrow> None))"

definition spec_extract_json :: "(string \<Rightarrow> json option) \<Rightarrow> string \<Rightarrow> exn + (string \<times> json) list" where
  "spec_extract_json loads text =
     (let t = strip text
      in case loads t of
           Some (JDict obj) \<Rightarrow> Inr obj
         | _ \<Rightarrow>
            (case List.map_filter (object_at loads t) [0 ..< length t] of
               [] \<Rightarrow> Inl (ValueError No_json_object_found)
             | obj # _ \<Rightarrow> Inr obj))"

section \<open>The number behind a raw accuracy\<close>


section \<open>Verified properties\<close>

subsection \<open>Emission and frame lemmas\<close>

lemma py_index_in_range:
  "0 \<le> i \<Longrightarrow> i < int (length xs) \<Longrightarrow> py_index xs i = Inr (xs ! nat i)"
  by (simp add: py_index_def)

lemma clamp_index_in_range:
  "xs \<noteq> [] \<Longrightarrow> 0 \<le> max 0 (min i (int (length xs) - 1))
     \<and> max 0 (min i (int (length xs) - 1)) < int (length xs)"
  by (cases xs) auto

lemma length_encode_moves: "length (encode_moves b) = length (available_moves b)"
  by (simp add: encode_moves_def)

lemma length_encode_switches: "length (encode_switches b) = length (available_switches b)"
  by (simp add: encode_switches_def)

lemma emit_move:
  assumes "d_action dec \<in> {''move'', ''force_switch''}" and "moves \<noteq> []"
    and "length move_rows = length moves"
  shows "emit dec move_rows switch_rows moves switches
           = Inr (Create_order_move (moves ! nat (max 0 (min (d_index dec) (int (length moves) - 1)))))"
proof -
  have "move_rows \<noteq> []" using assms(2,3) by auto
  then show ?thesis
    using assms(1) clamp_index_in_range[OF assms(2), of "d_index dec"]
    by (simp add: emit_def py_index_in_range)
qed

lemma emit_switch:
  assumes "d_action dec = ''switch''" and "switches \<noteq> []"
    and "length switch_rows = length switches"
  shows "emit dec move_rows switch_rows moves switches
           = Inr (Create_order_switch (switches ! nat (max 0 (min (d_index dec) (int (length switches) - 1)))))"
proof -
  have "switch_rows \<noteq> []" using assms(2,3) by auto
  then show ?thesis
    using assms(1) clamp_index_in_range[OF assms(2), of "d_index dec"]
    by (simp add: emit_def py_index_in_range)
qed

lemma emit_total:
  assumes "length move_rows = length moves" and "length switch_rows = length switches"
  shows "\<exists>c. emit dec move_rows switch_rows moves switches = Inr c"
proof (cases "d_action dec \<in> {''move'', ''force_switch''} \<and> moves \<noteq> []")
  case True
  then show ?thesis using emit_move[OF _ _ assms(1)] by blast
next
  case False
  note nm = this
  show ?thesis
  proof (cases "d_action dec = ''switch'' \<and> switches \<noteq> []")
    case True
    then show ?thesis using emit_switch[OF _ _ assms(2)] by blast
  next
    case False
    have mr: "(move_rows = []) = (moves = [])" using assms(1) by auto
    have sr: "(switch_rows = []) = (switches = [])" using assms(2) by auto
    show ?thesis
    proof (cases "moves = []")
      case True
      then show ?thesis using nm False mr sr by (auto simp: emit_def)
    next
      case False
      then have "py_index moves 0 = Inr (moves ! 0)" by (simp add: py_index_def)
      then show ?thesis using nm \<open>\<not> (d_action dec = ''switch'' \<and> switches \<noteq> [])\<close> mr sr False
        by (auto simp: emit_def)
    qed
  qed
qed



lemma trace_battle: "w_battle (trace e ev w) = w_battle w"
  by (simp add: trace_def split: option.splits)

lemma llm_decide_battle:
  "w_battle (snd (llm_decide loads e self state rows w)) = w_battle w"
proof (cases "llm_force_bad_output e")
  case True
  then show ?thesis by (simp add: llm_decide_def trace_battle)
next
  case nf: False
  show ?thesis
  proof (cases "client self")
    case None
    then show ?thesis using nf by (simp add: llm_decide_def)
  next
    case (Some create)
    show ?thesis
    proof (cases "create state rows")
      case (Inl err)
      then show ?thesis using nf Some by (simp add: llm_decide_def)
    next
      case (Inr content)
      define raw where "raw = (case content of None \<Rightarrow> [] | Some s \<Rightarrow> s)"
      show ?thesis
      proof (cases "extract_json loads raw")
        case (Inl err)
        then show ?thesis using nf Some Inr raw_def
          by (simp add: llm_decide_def trace_battle)
      next
        case dec: (Inr dec)
        obtain ok err where v: "validate_decision (JDict dec) rows state = (ok, err)"
          by (cases "validate_decision (JDict dec) rows state")
        show ?thesis using nf Some Inr raw_def dec v
          by (cases ok) (simp_all add: llm_decide_def trace_battle)
      qed
    qed
  qed
qed

lemma decide_battle:
  "w_battle (snd (decide loads e self state move_rows switch_rows w)) = w_battle w"
proof -
  obtain r w1 where l: "llm_decide loads e self state (rows_for_llm move_rows switch_rows) w = (r, w1)"
    by (cases "llm_decide loads e self state (rows_for_llm move_rows switch_rows) w")
  have w1: "w_battle w1 = w_battle w"
    using llm_decide_battle[of loads e self state "rows_for_llm move_rows switch_rows" w] l by simp
  show ?thesis
  proof (cases r)
    case (Inr dec)
    then show ?thesis using l w1 by (simp add: decide_def)
  next
    case (Inl err)
    then show ?thesis using l w1
      by (cases "fallback state move_rows switch_rows err") (simp_all add: decide_def trace_battle)
  qed
qed

text \<open>
  Claim C9. A turn leaves the battle object as it found it: whatever the oracle answers and
  whichever branch is taken, the battle held by the world after \<open>choose_move\<close> is the
  battle held before. Only the trace file can change.
\<close>

theorem choose_move_keeps_battle:
  "w_battle (snd (choose_move loads e self w)) = w_battle w"
proof -
  let ?b = "w_battle w"
  obtain r w1 where d: "decide loads e self (encode_state ?b) (encode_moves ?b) (encode_switches ?b) w = (r, w1)"
    by (cases "decide loads e self (encode_state ?b) (encode_moves ?b) (encode_switches ?b) w")
  have w1: "w_battle w1 = w_battle w"
    using decide_battle[of loads e self "encode_state ?b" "encode_moves ?b" "encode_switches ?b" w] d
    by simp
  show ?thesis
  proof (cases r)
    case (Inl err)
    then show ?thesis using d w1 by (simp add: choose_move_def Let_def)
  next
    case (Inr dec)
    then show ?thesis using d w1
      by (cases "decide_name e dec (encode_moves ?b) (encode_switches ?b)")
         (simp_all add: choose_move_def Let_def)
  qed
qed

subsection \<open>Scoring and the maximum search\<close>





subsection \<open>The oracle stage and the fallback\<close>

lemma dict_item_get:
  "dict_get d k \<noteq> JNull \<Longrightarrow> dict_item d k = Inr (dict_get d k)"
  by (auto simp: dict_item_def dict_get_def split: option.splits)

lemma validate_pass:
  assumes "fst (validate_decision (JDict dec) rows state)"
  shows "\<exists>a. dict_get dec ''action'' = JStr a
            \<and> a \<in> {''move'', ''switch'', ''force_switch''}
            \<and> isinstance_int (dict_get dec ''index'')
            \<and> \<not> (st_force_switch state \<and> a = ''move'')
            \<and> (a \<in> {''move'', ''force_switch''} \<longrightarrow>
                  0 \<le> int_value (dict_get dec ''index'')
                  \<and> int_value (dict_get dec ''index'') < n_moves rows)
            \<and> (a = ''switch'' \<longrightarrow>
                  0 \<le> int_value (dict_get dec ''index'')
                  \<and> int_value (dict_get dec ''index'') < n_switches rows)"
proof -
  let ?act = "dict_get dec ''action''"
  let ?idx = "dict_get dec ''index''"
  have v: "validate_decision (JDict dec) rows state =
      (if ?act \<notin> allowed_actions then (False, Bad_action ?act)
         else if \<not> isinstance_int ?idx then (False, Index_not_int)
         else if st_force_switch state \<and> ?act = JStr ''move'' then (False, Must_switch)
         else if ?act \<in> {JStr ''move'', JStr ''force_switch''}
                 \<and> (int_value ?idx < 0 \<or> int_value ?idx \<ge> n_moves rows)
           then (False, Index_out_of_range_move)
         else if ?act = JStr ''switch''
                 \<and> (int_value ?idx < 0 \<or> int_value ?idx \<ge> n_switches rows)
           then (False, Index_out_of_range_switch)
         else (True, No_reason))"
    by (simp only: validate_decision.simps Let_def)
  have 1: "?act \<in> allowed_actions"
  proof (rule ccontr)
    assume "?act \<notin> allowed_actions"
    then have "validate_decision (JDict dec) rows state = (False, Bad_action ?act)"
      unfolding v by simp
    with assms show False by simp
  qed
  have 2: "isinstance_int ?idx"
  proof (rule ccontr)
    assume "\<not> isinstance_int ?idx"
    then have "validate_decision (JDict dec) rows state = (False, Index_not_int)"
      unfolding v using 1 by simp
    with assms show False by simp
  qed
  have 3: "\<not> (st_force_switch state \<and> ?act = JStr ''move'')"
  proof
    assume "st_force_switch state \<and> ?act = JStr ''move''"
    then have "validate_decision (JDict dec) rows state = (False, Must_switch)"
      unfolding v using 1 2 by simp
    with assms show False by simp
  qed
  have 4: "\<not> (?act \<in> {JStr ''move'', JStr ''force_switch''}
                 \<and> (int_value ?idx < 0 \<or> int_value ?idx \<ge> n_moves rows))"
  proof
    assume h: "?act \<in> {JStr ''move'', JStr ''force_switch''}
                 \<and> (int_value ?idx < 0 \<or> int_value ?idx \<ge> n_moves rows)"
    have "validate_decision (JDict dec) rows state = (False, Index_out_of_range_move)"
      unfolding v using 1 2 3 h by simp
    with assms show False by simp
  qed
  have 5: "\<not> (?act = JStr ''switch''
                 \<and> (int_value ?idx < 0 \<or> int_value ?idx \<ge> n_switches rows))"
  proof
    assume h: "?act = JStr ''switch''
                 \<and> (int_value ?idx < 0 \<or> int_value ?idx \<ge> n_switches rows)"
    have "validate_decision (JDict dec) rows state = (False, Index_out_of_range_switch)"
      unfolding v using 1 2 3 4 h by simp
    with assms show False by simp
  qed
  from 1 obtain a where a: "?act = JStr a" and a3: "a \<in> {''move'', ''switch'', ''force_switch''}"
    unfolding allowed_actions_def by blast
  have c3: "\<not> (st_force_switch state \<and> a = ''move'')" using 3 a by simp
  have c4: "a \<in> {''move'', ''force_switch''} \<longrightarrow>
                  0 \<le> int_value ?idx \<and> int_value ?idx < n_moves rows"
  proof
    assume "a \<in> {''move'', ''force_switch''}"
    then have m: "?act \<in> {JStr ''move'', JStr ''force_switch''}" using a by simp
    have "\<not> (int_value ?idx < 0 \<or> int_value ?idx \<ge> n_moves rows)"
    proof
      assume "int_value ?idx < 0 \<or> int_value ?idx \<ge> n_moves rows"
      with m 4 show False by (rule_tac notE[OF 4]) (rule conjI)
    qed
    then show "0 \<le> int_value ?idx \<and> int_value ?idx < n_moves rows" by linarith
  qed
  have c5: "a = ''switch'' \<longrightarrow> 0 \<le> int_value ?idx \<and> int_value ?idx < n_switches rows"
  proof
    assume "a = ''switch''"
    then have m: "?act = JStr ''switch''" using a by simp
    have "\<not> (int_value ?idx < 0 \<or> int_value ?idx \<ge> n_switches rows)"
    proof
      assume "int_value ?idx < 0 \<or> int_value ?idx \<ge> n_switches rows"
      with m 5 show False by (rule_tac notE[OF 5]) (rule conjI)
    qed
    then show "0 \<le> int_value ?idx \<and> int_value ?idx < n_switches rows" by linarith
  qed
  have "dict_get dec ''action'' = JStr a
            \<and> a \<in> {''move'', ''switch'', ''force_switch''}
            \<and> isinstance_int (dict_get dec ''index'')
            \<and> \<not> (st_force_switch state \<and> a = ''move'')
            \<and> (a \<in> {''move'', ''force_switch''} \<longrightarrow>
                  0 \<le> int_value (dict_get dec ''index'')
                  \<and> int_value (dict_get dec ''index'') < n_moves rows)
            \<and> (a = ''switch'' \<longrightarrow>
                  0 \<le> int_value (dict_get dec ''index'')
                  \<and> int_value (dict_get dec ''index'') < n_switches rows)"
    using a a3 2 c3 c4 c5 by (intro conjI) assumption+
  then show ?thesis by (rule exI[where x=a])
qed

lemma read_decision_valid:
  assumes "dict_get dec ''action'' = JStr a" and "isinstance_int (dict_get dec ''index'')"
  shows "read_decision dec = Inr \<lparr> d_action = a, d_index = int_value (dict_get dec ''index''),
            d_reason = Oracle_reason (dict_get dec ''reason'') \<rparr>"
proof -
  have 1: "dict_item dec ''action'' = Inr (JStr a)"
    using dict_item_get[of dec "''action''"] assms(1) by simp
  have "dict_get dec ''index'' \<noteq> JNull" using assms(2) by auto
  then have 2: "dict_item dec ''index'' = Inr (dict_get dec ''index'')"
    by (rule dict_item_get)
  show ?thesis unfolding read_decision_def using 1 2 assms(2) by simp
qed









subsection \<open>The validator\<close>




text \<open>
  Claim C4. With the forced-switch flag set, a decision with action move and an integer
  index fails with must_switch whatever the index and the rows are, so also for an index
  that is a valid move index and for one that is out of range. The structural checks come
  first: with the flag set, an action outside the allowed set still fails with bad_action
  and a non-integer index still fails with index_not_int.
\<close>

theorem validate_decision_must_switch:
  "(st_force_switch st \<and> dict_get d ''action'' = JStr ''move''
      \<and> isinstance_int (dict_get d ''index'') \<longrightarrow>
      validate_decision (JDict d) rows st = (False, Must_switch))
   \<and> (st_force_switch st \<and> dict_get d ''action'' \<notin> allowed_actions \<longrightarrow>
      validate_decision (JDict d) rows st = (False, Bad_action (dict_get d ''action'')))
   \<and> (st_force_switch st \<and> dict_get d ''action'' = JStr ''move''
      \<and> \<not> isinstance_int (dict_get d ''index'') \<longrightarrow>
      validate_decision (JDict d) rows st = (False, Index_not_int))"
  by (simp add: Let_def allowed_actions_def)

theorem validate_decision_must_switch_witness:
  "validate_decision (JDict [(''action'', JStr ''move''), (''index'', JInt 0), (''reason'', JStr ''ok'')]) [Move_row \<lparr> m_kind = ''move'', m_index = 0, m_id = ''megakick'', m_name = ''megakick'',
        m_type = ''NORMAL'', m_base_power = 100, m_accuracy = 1, m_priority = 0,
        m_category = ''PHYSICAL'', m_pp = 5, m_is_stab = True \<rparr>,
      Switch_row \<lparr> s_kind = ''switch'', s_index = 0, s_species = ''pikachu'', s_types = [''ELECTRIC''],
        s_hp_pct = 100, s_status = None \<rparr>]
      \<lparr> st_turn = 3, st_force_switch = True,
        st_my_active = \<lparr> ms_species = ''unknown'', ms_types = [], ms_hp_pct = None, ms_status = None \<rparr>,
        st_opp_active = \<lparr> ms_species = ''unknown'', ms_types = [], ms_hp_pct = None, ms_status = None \<rparr>,
        st_weather = ''none'', st_terrain = ''none'' \<rparr>
     = (False, Must_switch)
   \<and> validate_decision (JDict [(''action'', JStr ''move''), (''index'', JInt 7), (''reason'', JStr ''ok'')]) [Move_row \<lparr> m_kind = ''move'', m_index = 0, m_id = ''megakick'', m_name = ''megakick'',
        m_type = ''NORMAL'', m_base_power = 100, m_accuracy = 1, m_priority = 0,
        m_category = ''PHYSICAL'', m_pp = 5, m_is_stab = True \<rparr>,
      Switch_row \<lparr> s_kind = ''switch'', s_index = 0, s_species = ''pikachu'', s_types = [''ELECTRIC''],
        s_hp_pct = 100, s_status = None \<rparr>]
      \<lparr> st_turn = 3, st_force_switch = True,
        st_my_active = \<lparr> ms_species = ''unknown'', ms_types = [], ms_hp_pct = None, ms_status = None \<rparr>,
        st_opp_active = \<lparr> ms_species = ''unknown'', ms_types = [], ms_hp_pct = None, ms_status = None \<rparr>,
        st_weather = ''none'', st_terrain = ''none'' \<rparr>
     = (False, Must_switch)
   \<and> validate_decision (JDict [(''action'', JStr ''fly''), (''index'', JInt 0), (''reason'', JStr ''ok'')]) [Move_row \<lparr> m_kind = ''move'', m_index = 0, m_id = ''megakick'', m_name = ''megakick'',
        m_type = ''NORMAL'', m_base_power = 100, m_accuracy = 1, m_priority = 0,
        m_category = ''PHYSICAL'', m_pp = 5, m_is_stab = True \<rparr>,
      Switch_row \<lparr> s_kind = ''switch'', s_index = 0, s_species = ''pikachu'', s_types = [''ELECTRIC''],
        s_hp_pct = 100, s_status = None \<rparr>]
      \<lparr> st_turn = 3, st_force_switch = True,
        st_my_active = \<lparr> ms_species = ''unknown'', ms_types = [], ms_hp_pct = None, ms_status = None \<rparr>,
        st_opp_active = \<lparr> ms_species = ''unknown'', ms_types = [], ms_hp_pct = None, ms_status = None \<rparr>,
        st_weather = ''none'', st_terrain = ''none'' \<rparr>
     = (False, Bad_action (JStr ''fly''))
   \<and> validate_decision (JDict [(''action'', JStr ''move''), (''index'', JStr ''0''), (''reason'', JStr ''ok'')]) [Move_row \<lparr> m_kind = ''move'', m_index = 0, m_id = ''megakick'', m_name = ''megakick'',
        m_type = ''NORMAL'', m_base_power = 100, m_accuracy = 1, m_priority = 0,
        m_category = ''PHYSICAL'', m_pp = 5, m_is_stab = True \<rparr>,
      Switch_row \<lparr> s_kind = ''switch'', s_index = 0, s_species = ''pikachu'', s_types = [''ELECTRIC''],
        s_hp_pct = 100, s_status = None \<rparr>]
      \<lparr> st_turn = 3, st_force_switch = True,
        st_my_active = \<lparr> ms_species = ''unknown'', ms_types = [], ms_hp_pct = None, ms_status = None \<rparr>,
        st_opp_active = \<lparr> ms_species = ''unknown'', ms_types = [], ms_hp_pct = None, ms_status = None \<rparr>,
        st_weather = ''none'', st_terrain = ''none'' \<rparr>
     = (False, Index_not_int)"
  using
    validate_decision_must_switch [where d = "[(''action'', JStr ''move''), (''index'', JInt 0), (''reason'', JStr ''ok'')]"
      and rows = "[Move_row \<lparr> m_kind = ''move'', m_index = 0, m_id = ''megakick'', m_name = ''megakick'',
        m_type = ''NORMAL'', m_base_power = 100, m_accuracy = 1, m_priority = 0,
        m_category = ''PHYSICAL'', m_pp = 5, m_is_stab = True \<rparr>,
      Switch_row \<lparr> s_kind = ''switch'', s_index = 0, s_species = ''pikachu'', s_types = [''ELECTRIC''],
        s_hp_pct = 100, s_status = None \<rparr>]"
      and st = "\<lparr> st_turn = 3, st_force_switch = True,
        st_my_active = \<lparr> ms_species = ''unknown'', ms_types = [], ms_hp_pct = None, ms_status = None \<rparr>,
        st_opp_active = \<lparr> ms_species = ''unknown'', ms_types = [], ms_hp_pct = None, ms_status = None \<rparr>,
        st_weather = ''none'', st_terrain = ''none'' \<rparr>"]
    validate_decision_must_switch [where d = "[(''action'', JStr ''move''), (''index'', JInt 7), (''reason'', JStr ''ok'')]"
      and rows = "[Move_row \<lparr> m_kind = ''move'', m_index = 0, m_id = ''megakick'', m_name = ''megakick'',
        m_type = ''NORMAL'', m_base_power = 100, m_accuracy = 1, m_priority = 0,
        m_category = ''PHYSICAL'', m_pp = 5, m_is_stab = True \<rparr>,
      Switch_row \<lparr> s_kind = ''switch'', s_index = 0, s_species = ''pikachu'', s_types = [''ELECTRIC''],
        s_hp_pct = 100, s_status = None \<rparr>]"
      and st = "\<lparr> st_turn = 3, st_force_switch = True,
        st_my_active = \<lparr> ms_species = ''unknown'', ms_types = [], ms_hp_pct = None, ms_status = None \<rparr>,
        st_opp_active = \<lparr> ms_species = ''unknown'', ms_types = [], ms_hp_pct = None, ms_status = None \<rparr>,
        st_weather = ''none'', st_terrain = ''none'' \<rparr>"]
    validate_decision_must_switch [where d = "[(''action'', JStr ''fly''), (''index'', JInt 0), (''reason'', JStr ''ok'')]"
      and rows = "[Move_row \<lparr> m_kind = ''move'', m_index = 0, m_id = ''megakick'', m_name = ''megakick'',
        m_type = ''NORMAL'', m_base_power = 100, m_accuracy = 1, m_priority = 0,
        m_category = ''PHYSICAL'', m_pp = 5, m_is_stab = True \<rparr>,
      Switch_row \<lparr> s_kind = ''switch'', s_index = 0, s_species = ''pikachu'', s_types = [''ELECTRIC''],
        s_hp_pct = 100, s_status = None \<rparr>]"
      and st = "\<lparr> st_turn = 3, st_force_switch = True,
        st_my_active = \<lparr> ms_species = ''unknown'', ms_types = [], ms_hp_pct = None, ms_status = None \<rparr>,
        st_opp_active = \<lparr> ms_species = ''unknown'', ms_types = [], ms_hp_pct = None, ms_status = None \<rparr>,
        st_weather = ''none'', st_terrain = ''none'' \<rparr>"]
    validate_decision_must_switch [where d = "[(''action'', JStr ''move''), (''index'', JStr ''0''), (''reason'', JStr ''ok'')]"
      and rows = "[Move_row \<lparr> m_kind = ''move'', m_index = 0, m_id = ''megakick'', m_name = ''megakick'',
        m_type = ''NORMAL'', m_base_power = 100, m_accuracy = 1, m_priority = 0,
        m_category = ''PHYSICAL'', m_pp = 5, m_is_stab = True \<rparr>,
      Switch_row \<lparr> s_kind = ''switch'', s_index = 0, s_species = ''pikachu'', s_types = [''ELECTRIC''],
        s_hp_pct = 100, s_status = None \<rparr>]"
      and st = "\<lparr> st_turn = 3, st_force_switch = True,
        st_my_active = \<lparr> ms_species = ''unknown'', ms_types = [], ms_hp_pct = None, ms_status = None \<rparr>,
        st_opp_active = \<lparr> ms_species = ''unknown'', ms_types = [], ms_hp_pct = None, ms_status = None \<rparr>,
        st_weather = ''none'', st_terrain = ''none'' \<rparr>"]
  by (simp add: dict_get_def allowed_actions_def)

subsection \<open>The fallback chain\<close>









subsection \<open>Emission\<close>

lemma n_moves_encode:
  "n_moves (rows_for_llm (encode_moves b) (encode_switches b)) = int (length (available_moves b))"
proof -
  have 1: "filter (\<lambda>r. row_kind r = ''move'') (map Move_row (encode_moves b))
             = map Move_row (encode_moves b)"
    by (rule filter_True) (auto simp: encode_moves_def move_row_def)
  have 2: "filter (\<lambda>r. row_kind r = ''move'') (map Switch_row (encode_switches b)) = []"
    by (rule filter_False) (auto simp: encode_switches_def switch_row_def)
  show ?thesis
    by (simp only: n_moves_def rows_for_llm_def filter_append 1 2 append_Nil2 length_map
        length_encode_moves)
qed

lemma n_switches_encode:
  "n_switches (rows_for_llm (encode_moves b) (encode_switches b))
     = int (length (available_switches b))"
proof -
  have 1: "filter (\<lambda>r. row_kind r = ''switch'') (map Move_row (encode_moves b)) = []"
    by (rule filter_False) (auto simp: encode_moves_def move_row_def)
  have 2: "filter (\<lambda>r. row_kind r = ''switch'') (map Switch_row (encode_switches b))
             = map Switch_row (encode_switches b)"
    by (rule filter_True) (auto simp: encode_switches_def switch_row_def)
  show ?thesis
    by (simp only: n_switches_def rows_for_llm_def filter_append 1 2 append_Nil length_map
        length_encode_switches)
qed

text \<open>
  Claim C8. Building the order never reads a list out of range. For a decision with
  action move or force_switch and a non-empty list of legal moves, the order is made of the
  legal move at the decision's index clamped into \<open>[0, length)\<close>; for action switch and
  a non-empty list of legal switches, of the legal switch at the clamped index. An index
  already in range is left as it is.
\<close>

theorem emit_clamps_index:
  "(\<exists>c. emit dec (encode_moves b) (encode_switches b) (available_moves b) (available_switches b)
          = Inr c)
   \<and> (d_action dec \<in> {''move'', ''force_switch''} \<and> available_moves b \<noteq> [] \<longrightarrow>
        0 \<le> max 0 (min (d_index dec) (int (length (available_moves b)) - 1))
        \<and> max 0 (min (d_index dec) (int (length (available_moves b)) - 1))
              < int (length (available_moves b))
        \<and> emit dec (encode_moves b) (encode_switches b) (available_moves b) (available_switches b)
            = Inr (Create_order_move (available_moves b
                 ! nat (max 0 (min (d_index dec) (int (length (available_moves b)) - 1))))))
   \<and> (d_action dec = ''switch'' \<and> available_switches b \<noteq> [] \<longrightarrow>
        0 \<le> max 0 (min (d_index dec) (int (length (available_switches b)) - 1))
        \<and> max 0 (min (d_index dec) (int (length (available_switches b)) - 1))
              < int (length (available_switches b))
        \<and> emit dec (encode_moves b) (encode_switches b) (available_moves b) (available_switches b)
            = Inr (Create_order_switch (available_switches b
                 ! nat (max 0 (min (d_index dec) (int (length (available_switches b)) - 1))))))
   \<and> (0 \<le> d_index dec \<and> d_index dec < int (length (available_moves b)) \<longrightarrow>
        max 0 (min (d_index dec) (int (length (available_moves b)) - 1)) = d_index dec)
   \<and> (0 \<le> d_index dec \<and> d_index dec < int (length (available_switches b)) \<longrightarrow>
        max 0 (min (d_index dec) (int (length (available_switches b)) - 1)) = d_index dec)"
proof -
  have 1: "\<exists>c. emit dec (encode_moves b) (encode_switches b) (available_moves b)
                 (available_switches b) = Inr c"
    by (rule emit_total) (simp_all add: length_encode_moves length_encode_switches)
  have 2: "d_action dec \<in> {''move'', ''force_switch''} \<and> available_moves b \<noteq> [] \<longrightarrow>
        0 \<le> max 0 (min (d_index dec) (int (length (available_moves b)) - 1))
        \<and> max 0 (min (d_index dec) (int (length (available_moves b)) - 1))
              < int (length (available_moves b))
        \<and> emit dec (encode_moves b) (encode_switches b) (available_moves b) (available_switches b)
            = Inr (Create_order_move (available_moves b
                 ! nat (max 0 (min (d_index dec) (int (length (available_moves b)) - 1)))))"
  proof
    assume h: "d_action dec \<in> {''move'', ''force_switch''} \<and> available_moves b \<noteq> []"
    then have a: "d_action dec \<in> {''move'', ''force_switch''}" and ne: "available_moves b \<noteq> []"
      by (rule conjunct1, rule conjunct2)
    from clamp_index_in_range[OF ne, of "d_index dec"]
      emit_move[OF a ne length_encode_moves, of "encode_switches b" "available_switches b"]
    show "0 \<le> max 0 (min (d_index dec) (int (length (available_moves b)) - 1))
        \<and> max 0 (min (d_index dec) (int (length (available_moves b)) - 1))
              < int (length (available_moves b))
        \<and> emit dec (encode_moves b) (encode_switches b) (available_moves b) (available_switches b)
            = Inr (Create_order_move (available_moves b
                 ! nat (max 0 (min (d_index dec) (int (length (available_moves b)) - 1)))))"
      by (intro conjI) (erule conjunct1, erule conjunct2, assumption)
  qed
  have 3: "d_action dec = ''switch'' \<and> available_switches b \<noteq> [] \<longrightarrow>
        0 \<le> max 0 (min (d_index dec) (int (length (available_switches b)) - 1))
        \<and> max 0 (min (d_index dec) (int (length (available_switches b)) - 1))
              < int (length (available_switches b))
        \<and> emit dec (encode_moves b) (encode_switches b) (available_moves b) (available_switches b)
            = Inr (Create_order_switch (available_switches b
                 ! nat (max 0 (min (d_index dec) (int (length (available_switches b)) - 1)))))"
  proof
    assume h: "d_action dec = ''switch'' \<and> available_switches b \<noteq> []"
    then have a: "d_action dec = ''switch''" and ne: "available_switches b \<noteq> []"
      by (rule conjunct1, rule conjunct2)
    from clamp_index_in_range[OF ne, of "d_index dec"]
      emit_switch[OF a ne length_encode_switches, of "encode_moves b" "available_moves b"]
    show "0 \<le> max 0 (min (d_index dec) (int (length (available_switches b)) - 1))
        \<and> max 0 (min (d_index dec) (int (length (available_switches b)) - 1))
              < int (length (available_switches b))
        \<and> emit dec (encode_moves b) (encode_switches b) (available_moves b) (available_switches b)
            = Inr (Create_order_switch (available_switches b
                 ! nat (max 0 (min (d_index dec) (int (length (available_switches b)) - 1)))))"
      by (intro conjI) (erule conjunct1, erule conjunct2, assumption)
  qed
  have 4: "0 \<le> d_index dec \<and> d_index dec < int (length (available_moves b)) \<longrightarrow>
        max 0 (min (d_index dec) (int (length (available_moves b)) - 1)) = d_index dec"
    by linarith
  have 5: "0 \<le> d_index dec \<and> d_index dec < int (length (available_switches b)) \<longrightarrow>
        max 0 (min (d_index dec) (int (length (available_switches b)) - 1)) = d_index dec"
    by linarith
  from 1 2 3 4 5 show ?thesis by (intro conjI)
qed

theorem emit_clamps_index_witness:
  "emit \<lparr> d_action = ''move'', d_index = 7, d_reason = Oracle_reason JNull \<rparr>
      (encode_moves \<lparr> active_pokemon = None, opponent_active_pokemon = None,
       available_moves = [\<lparr> mv_id = Some ''tackle'', mv_name = None, mv_type = Some ''NORMAL'',
         mv_base_power = 40, mv_accuracy = PyFloat 1, mv_priority = 0,
         mv_damage_class = None, mv_current_pp = Some 35, mv_max_pp = Some 35 \<rparr>,
        \<lparr> mv_id = Some ''thunderbolt'', mv_name = None, mv_type = Some ''ELECTRIC'',
         mv_base_power = 90, mv_accuracy = PyFloat 1, mv_priority = 0,
         mv_damage_class = None, mv_current_pp = Some 15, mv_max_pp = Some 15 \<rparr>],
       available_switches = [\<lparr> p_species = Some ''onix'', p_name = None, p_types = [Some ''ROCK'', Some ''GROUND''],
         p_current_hp = Some 40, p_max_hp = Some 100, p_status = None \<rparr>],
       weather = None, terrain = None, turn = 3, force_switch = False \<rparr>)
      (encode_switches \<lparr> active_pokemon = None, opponent_active_pokemon = None,
       available_moves = [\<lparr> mv_id = Some ''tackle'', mv_name = None, mv_type = Some ''NORMAL'',
         mv_base_power = 40, mv_accuracy = PyFloat 1, mv_priority = 0,
         mv_damage_class = None, mv_current_pp = Some 35, mv_max_pp = Some 35 \<rparr>,
        \<lparr> mv_id = Some ''thunderbolt'', mv_name = None, mv_type = Some ''ELECTRIC'',
         mv_base_power = 90, mv_accuracy = PyFloat 1, mv_priority = 0,
         mv_damage_class = None, mv_current_pp = Some 15, mv_max_pp = Some 15 \<rparr>],
       available_switches = [\<lparr> p_species = Some ''onix'', p_name = None, p_types = [Some ''ROCK'', Some ''GROUND''],
         p_current_hp = Some 40, p_max_hp = Some 100, p_status = None \<rparr>],
       weather = None, terrain = None, turn = 3, force_switch = False \<rparr>)
      (available_moves \<lparr> active_pokemon = None, opponent_active_pokemon = None,
       available_moves = [\<lparr> mv_id = Some ''tackle'', mv_name = None, mv_type = Some ''NORMAL'',
         mv_base_power = 40, mv_accuracy = PyFloat 1, mv_priority = 0,
         mv_damage_class = None, mv_current_pp = Some 35, mv_max_pp = Some 35 \<rparr>,
        \<lparr> mv_id = Some ''thunderbolt'', mv_name = None, mv_type = Some ''ELECTRIC'',
         mv_base_power = 90, mv_accuracy = PyFloat 1, mv_priority = 0,
         mv_damage_class = None, mv_current_pp = Some 15, mv_max_pp = Some 15 \<rparr>],
       available_switches = [\<lparr> p_species = Some ''onix'', p_name = None, p_types = [Some ''ROCK'', Some ''GROUND''],
         p_current_hp = Some 40, p_max_hp = Some 100, p_status = None \<rparr>],
       weather = None, terrain = None, turn = 3, force_switch = False \<rparr>)
      (available_switches \<lparr> active_pokemon = None, opponent_active_pokemon = None,
       available_moves = [\<lparr> mv_id = Some ''tackle'', mv_name = None, mv_type = Some ''NORMAL'',
         mv_base_power = 40, mv_accuracy = PyFloat 1, mv_priority = 0,
         mv_damage_class = None, mv_current_pp = Some 35, mv_max_pp = Some 35 \<rparr>,
        \<lparr> mv_id = Some ''thunderbolt'', mv_name = None, mv_type = Some ''ELECTRIC'',
         mv_base_power = 90, mv_accuracy = PyFloat 1, mv_priority = 0,
         mv_damage_class = None, mv_current_pp = Some 15, mv_max_pp = Some 15 \<rparr>],
       available_switches = [\<lparr> p_species = Some ''onix'', p_name = None, p_types = [Some ''ROCK'', Some ''GROUND''],
         p_current_hp = Some 40, p_max_hp = Some 100, p_status = None \<rparr>],
       weather = None, terrain = None, turn = 3, force_switch = False \<rparr>)
     = Inr (Create_order_move \<lparr> mv_id = Some ''thunderbolt'', mv_name = None, mv_type = Some ''ELECTRIC'',
         mv_base_power = 90, mv_accuracy = PyFloat 1, mv_priority = 0,
         mv_damage_class = None, mv_current_pp = Some 15, mv_max_pp = Some 15 \<rparr>)
   \<and> emit \<lparr> d_action = ''switch'', d_index = (- 3), d_reason = Oracle_reason JNull \<rparr>
      (encode_moves \<lparr> active_pokemon = None, opponent_active_pokemon = None,
       available_moves = [\<lparr> mv_id = Some ''tackle'', mv_name = None, mv_type = Some ''NORMAL'',
         mv_base_power = 40, mv_accuracy = PyFloat 1, mv_priority = 0,
         mv_damage_class = None, mv_current_pp = Some 35, mv_max_pp = Some 35 \<rparr>,
        \<lparr> mv_id = Some ''thunderbolt'', mv_name = None, mv_type = Some ''ELECTRIC'',
         mv_base_power = 90, mv_accuracy = PyFloat 1, mv_priority = 0,
         mv_damage_class = None, mv_current_pp = Some 15, mv_max_pp = Some 15 \<rparr>],
       available_switches = [\<lparr> p_species = Some ''onix'', p_name = None, p_types = [Some ''ROCK'', Some ''GROUND''],
         p_current_hp = Some 40, p_max_hp = Some 100, p_status = None \<rparr>],
       weather = None, terrain = None, turn = 3, force_switch = False \<rparr>)
      (encode_switches \<lparr> active_pokemon = None, opponent_active_pokemon = None,
       available_moves = [\<lparr> mv_id = Some ''tackle'', mv_name = None, mv_type = Some ''NORMAL'',
         mv_base_power = 40, mv_accuracy = PyFloat 1, mv_priority = 0,
         mv_damage_class = None, mv_current_pp = Some 35, mv_max_pp = Some 35 \<rparr>,
        \<lparr> mv_id = Some ''thunderbolt'', mv_name = None, mv_type = Some ''ELECTRIC'',
         mv_base_power = 90, mv_accuracy = PyFloat 1, mv_priority = 0,
         mv_damage_class = None, mv_current_pp = Some 15, mv_max_pp = Some 15 \<rparr>],
       available_switches = [\<lparr> p_species = Some ''onix'', p_name = None, p_types = [Some ''ROCK'', Some ''GROUND''],
         p_current_hp = Some 40, p_max_hp = Some 100, p_status = None \<rparr>],
       weather = None, terrain = None, turn = 3, force_switch = False \<rparr>)
      (available_moves \<lparr> active_pokemon = None, opponent_active_pokemon = None,
       available_moves = [\<lparr> mv_id = Some ''tackle'', mv_name = None, mv_type = Some ''NORMAL'',
         mv_base_power = 40, mv_accuracy = PyFloat 1, mv_priority = 0,
         mv_damage_class = None, mv_current_pp = Some 35, mv_max_pp = Some 35 \<rparr>,
        \<lparr> mv_id = Some ''thunderbolt'', mv_name = None, mv_type = Some ''ELECTRIC'',
         mv_base_power = 90, mv_accuracy = PyFloat 1, mv_priority = 0,
         mv_damage_class = None, mv_current_pp = Some 15, mv_max_pp = Some 15 \<rparr>],
       available_switches = [\<lparr> p_species = Some ''onix'', p_name = None, p_types = [Some ''ROCK'', Some ''GROUND''],
         p_current_hp = Some 40, p_max_hp = Some 100, p_status = None \<rparr>],
       weather = None, terrain = None, turn = 3, force_switch = False \<rparr>)
      (available_switches \<lparr> active_pokemon = None, opponent_active_pokemon = None,
       available_moves = [\<lparr> mv_id = Some ''tackle'', mv_name = None, mv_type = Some ''NORMAL'',
         mv_base_power = 40, mv_accuracy = PyFloat 1, mv_priority = 0,
         mv_damage_class = None, mv_current_pp = Some 35, mv_max_pp = Some 35 \<rparr>,
        \<lparr> mv_id = Some ''thunderbolt'', mv_name = None, mv_type = Some ''ELECTRIC'',
         mv_base_power = 90, mv_accuracy = PyFloat 1, mv_priority = 0,
         mv_damage_class = None, mv_current_pp = Some 15, mv_max_pp = Some 15 \<rparr>],
       available_switches = [\<lparr> p_species = Some ''onix'', p_name = None, p_types = [Some ''ROCK'', Some ''GROUND''],
         p_current_hp = Some 40, p_max_hp = Some 100, p_status = None \<rparr>],
       weather = None, terrain = None, turn = 3, force_switch = False \<rparr>)
     = Inr (Create_order_switch \<lparr> p_species = Some ''onix'', p_name = None, p_types = [Some ''ROCK'', Some ''GROUND''],
         p_current_hp = Some 40, p_max_hp = Some 100, p_status = None \<rparr>)
   \<and> emit \<lparr> d_action = ''force_switch'', d_index = 0, d_reason = Oracle_reason JNull \<rparr>
      (encode_moves \<lparr> active_pokemon = None, opponent_active_pokemon = None,
       available_moves = [\<lparr> mv_id = Some ''tackle'', mv_name = None, mv_type = Some ''NORMAL'',
         mv_base_power = 40, mv_accuracy = PyFloat 1, mv_priority = 0,
         mv_damage_class = None, mv_current_pp = Some 35, mv_max_pp = Some 35 \<rparr>,
        \<lparr> mv_id = Some ''thunderbolt'', mv_name = None, mv_type = Some ''ELECTRIC'',
         mv_base_power = 90, mv_accuracy = PyFloat 1, mv_priority = 0,
         mv_damage_class = None, mv_current_pp = Some 15, mv_max_pp = Some 15 \<rparr>],
       available_switches = [\<lparr> p_species = Some ''onix'', p_name = None, p_types = [Some ''ROCK'', Some ''GROUND''],
         p_current_hp = Some 40, p_max_hp = Some 100, p_status = None \<rparr>],
       weather = None, terrain = None, turn = 3, force_switch = False \<rparr>)
      (encode_switches \<lparr> active_pokemon = None, opponent_active_pokemon = None,
       available_moves = [\<lparr> mv_id = Some ''tackle'', mv_name = None, mv_type = Some ''NORMAL'',
         mv_base_power = 40, mv_accuracy = PyFloat 1, mv_priority = 0,
         mv_damage_class = None, mv_current_pp = Some 35, mv_max_pp = Some 35 \<rparr>,
        \<lparr> mv_id = Some ''thunderbolt'', mv_name = None, mv_type = Some ''ELECTRIC'',
         mv_base_power = 90, mv_accuracy = PyFloat 1, mv_priority = 0,
         mv_damage_class = None, mv_current_pp = Some 15, mv_max_pp = Some 15 \<rparr>],
       available_switches = [\<lparr> p_species = Some ''onix'', p_name = None, p_types = [Some ''ROCK'', Some ''GROUND''],
         p_current_hp = Some 40, p_max_hp = Some 100, p_status = None \<rparr>],
       weather = None, terrain = None, turn = 3, force_switch = False \<rparr>)
      (available_moves \<lparr> active_pokemon = None, opponent_active_pokemon = None,
       available_moves = [\<lparr> mv_id = Some ''tackle'', mv_name = None, mv_type = Some ''NORMAL'',
         mv_base_power = 40, mv_accuracy = PyFloat 1, mv_priority = 0,
         mv_damage_class = None, mv_current_pp = Some 35, mv_max_pp = Some 35 \<rparr>,
        \<lparr> mv_id = Some ''thunderbolt'', mv_name = None, mv_type = Some ''ELECTRIC'',
         mv_base_power = 90, mv_accuracy = PyFloat 1, mv_priority = 0,
         mv_damage_class = None, mv_current_pp = Some 15, mv_max_pp = Some 15 \<rparr>],
       available_switches = [\<lparr> p_species = Some ''onix'', p_name = None, p_types = [Some ''ROCK'', Some ''GROUND''],
         p_current_hp = Some 40, p_max_hp = Some 100, p_status = None \<rparr>],
       weather = None, terrain = None, turn = 3, force_switch = False \<rparr>)
      (available_switches \<lparr> active_pokemon = None, opponent_active_pokemon = None,
       available_moves = [\<lparr> mv_id = Some ''tackle'', mv_name = None, mv_type = Some ''NORMAL'',
         mv_base_power = 40, mv_accuracy = PyFloat 1, mv_priority = 0,
         mv_damage_class = None, mv_current_pp = Some 35, mv_max_pp = Some 35 \<rparr>,
        \<lparr> mv_id = Some ''thunderbolt'', mv_name = None, mv_type = Some ''ELECTRIC'',
         mv_base_power = 90, mv_accuracy = PyFloat 1, mv_priority = 0,
         mv_damage_class = None, mv_current_pp = Some 15, mv_max_pp = Some 15 \<rparr>],
       available_switches = [\<lparr> p_species = Some ''onix'', p_name = None, p_types = [Some ''ROCK'', Some ''GROUND''],
         p_current_hp = Some 40, p_max_hp = Some 100, p_status = None \<rparr>],
       weather = None, terrain = None, turn = 3, force_switch = False \<rparr>)
     = Inr (Create_order_move \<lparr> mv_id = Some ''tackle'', mv_name = None, mv_type = Some ''NORMAL'',
         mv_base_power = 40, mv_accuracy = PyFloat 1, mv_priority = 0,
         mv_damage_class = None, mv_current_pp = Some 35, mv_max_pp = Some 35 \<rparr>)"
  using
    emit_clamps_index [where dec = "\<lparr> d_action = ''move'', d_index = 7, d_reason = Oracle_reason JNull \<rparr>"
      and b = "\<lparr> active_pokemon = None, opponent_active_pokemon = None,
       available_moves = [\<lparr> mv_id = Some ''tackle'', mv_name = None, mv_type = Some ''NORMAL'',
         mv_base_power = 40, mv_accuracy = PyFloat 1, mv_priority = 0,
         mv_damage_class = None, mv_current_pp = Some 35, mv_max_pp = Some 35 \<rparr>,
        \<lparr> mv_id = Some ''thunderbolt'', mv_name = None, mv_type = Some ''ELECTRIC'',
         mv_base_power = 90, mv_accuracy = PyFloat 1, mv_priority = 0,
         mv_damage_class = None, mv_current_pp = Some 15, mv_max_pp = Some 15 \<rparr>],
       available_switches = [\<lparr> p_species = Some ''onix'', p_name = None, p_types = [Some ''ROCK'', Some ''GROUND''],
         p_current_hp = Some 40, p_max_hp = Some 100, p_status = None \<rparr>],
       weather = None, terrain = None, turn = 3, force_switch = False \<rparr>"]
    emit_clamps_index [where dec = "\<lparr> d_action = ''switch'', d_index = (- 3), d_reason = Oracle_reason JNull \<rparr>"
      and b = "\<lparr> active_pokemon = None, opponent_active_pokemon = None,
       available_moves = [\<lparr> mv_id = Some ''tackle'', mv_name = None, mv_type = Some ''NORMAL'',
         mv_base_power = 40, mv_accuracy = PyFloat 1, mv_priority = 0,
         mv_damage_class = None, mv_current_pp = Some 35, mv_max_pp = Some 35 \<rparr>,
        \<lparr> mv_id = Some ''thunderbolt'', mv_name = None, mv_type = Some ''ELECTRIC'',
         mv_base_power = 90, mv_accuracy = PyFloat 1, mv_priority = 0,
         mv_damage_class = None, mv_current_pp = Some 15, mv_max_pp = Some 15 \<rparr>],
       available_switches = [\<lparr> p_species = Some ''onix'', p_name = None, p_types = [Some ''ROCK'', Some ''GROUND''],
         p_current_hp = Some 40, p_max_hp = Some 100, p_status = None \<rparr>],
       weather = None, terrain = None, turn = 3, force_switch = False \<rparr>"]
    emit_clamps_index [where dec = "\<lparr> d_action = ''force_switch'', d_index = 0, d_reason = Oracle_reason JNull \<rparr>"
      and b = "\<lparr> active_pokemon = None, opponent_active_pokemon = None,
       available_moves = [\<lparr> mv_id = Some ''tackle'', mv_name = None, mv_type = Some ''NORMAL'',
         mv_base_power = 40, mv_accuracy = PyFloat 1, mv_priority = 0,
         mv_damage_class = None, mv_current_pp = Some 35, mv_max_pp = Some 35 \<rparr>,
        \<lparr> mv_id = Some ''thunderbolt'', mv_name = None, mv_type = Some ''ELECTRIC'',
         mv_base_power = 90, mv_accuracy = PyFloat 1, mv_priority = 0,
         mv_damage_class = None, mv_current_pp = Some 15, mv_max_pp = Some 15 \<rparr>],
       available_switches = [\<lparr> p_species = Some ''onix'', p_name = None, p_types = [Some ''ROCK'', Some ''GROUND''],
         p_current_hp = Some 40, p_max_hp = Some 100, p_status = None \<rparr>],
       weather = None, terrain = None, turn = 3, force_switch = False \<rparr>"]
  by simp

text \<open>
  Claim C10. A decision with action force_switch that the validator accepted against the
  encoded rows of a battle is read back with an index inside the legal moves, and the
  order built from it is the move order for the legal move at that index: the same order
  as for the decision with action move and the same index. It is not a switch order.
\<close>

theorem force_switch_emits_move:
  "fst (validate_decision (JDict dec) (rows_for_llm (encode_moves b) (encode_switches b)) st)
   \<and> dict_get dec ''action'' = JStr ''force_switch'' \<longrightarrow>
   (\<exists>d. read_decision dec = Inr d
        \<and> d_action d = ''force_switch''
        \<and> 0 \<le> d_index d \<and> d_index d < int (length (available_moves b))
        \<and> emit d (encode_moves b) (encode_switches b) (available_moves b) (available_switches b)
            = Inr (Create_order_move (available_moves b ! nat (d_index d)))
        \<and> emit (d\<lparr>d_action := ''move''\<rparr>) (encode_moves b) (encode_switches b)
              (available_moves b) (available_switches b)
            = emit d (encode_moves b) (encode_switches b) (available_moves b)
                (available_switches b))"
proof
  let ?rows = "rows_for_llm (encode_moves b) (encode_switches b)"
  let ?moves = "available_moves b"
  assume h: "fst (validate_decision (JDict dec) ?rows st)
     \<and> dict_get dec ''action'' = JStr ''force_switch''"
  then have v: "fst (validate_decision (JDict dec) ?rows st)"
    and act: "dict_get dec ''action'' = JStr ''force_switch''"
    by (rule conjunct1, rule conjunct2)
  from validate_pass[OF v] obtain a where a: "dict_get dec ''action'' = JStr a"
    and isint: "isinstance_int (dict_get dec ''index'')"
    and rng: "a \<in> {''move'', ''force_switch''} \<longrightarrow>
                  0 \<le> int_value (dict_get dec ''index'')
                  \<and> int_value (dict_get dec ''index'') < n_moves ?rows"
    by blast
  from a act have afs: "a = ''force_switch''" by simp
  define d where "d = \<lparr> d_action = ''force_switch'', d_index = int_value (dict_get dec ''index''),
            d_reason = Oracle_reason (dict_get dec ''reason'') \<rparr>"
  have rd: "read_decision dec = Inr d"
    unfolding d_def by (rule read_decision_valid[OF act isint])
  have da: "d_action d = ''force_switch''" by (simp add: d_def)
  have di: "d_index d = int_value (dict_get dec ''index'')" by (simp add: d_def)
  have r0: "0 \<le> d_index d" and r1: "d_index d < int (length ?moves)"
    using rng afs di by (simp_all add: n_moves_encode)
  have ne: "?moves \<noteq> []" using r0 r1 by auto
  have cl: "max 0 (min (d_index d) (int (length ?moves) - 1)) = d_index d"
    using r0 r1 by linarith
  have m1: "d_action d \<in> {''move'', ''force_switch''}" using da by simp
  have m2: "d_action (d\<lparr>d_action := ''move''\<rparr>) \<in> {''move'', ''force_switch''}" by simp
  have e1: "emit d (encode_moves b) (encode_switches b) ?moves (available_switches b)
            = Inr (Create_order_move (?moves ! nat (d_index d)))"
    using emit_move[OF m1 ne length_encode_moves, of "encode_switches b" "available_switches b"]
    by (simp only: cl)
  have e2: "emit (d\<lparr>d_action := ''move''\<rparr>) (encode_moves b) (encode_switches b) ?moves
              (available_switches b)
            = Inr (Create_order_move (?moves ! nat (d_index d)))"
    using emit_move[OF m2 ne length_encode_moves, of "encode_switches b" "available_switches b"] cl
    by simp
  have "read_decision dec = Inr d
        \<and> d_action d = ''force_switch''
        \<and> 0 \<le> d_index d \<and> d_index d < int (length ?moves)
        \<and> emit d (encode_moves b) (encode_switches b) ?moves (available_switches b)
            = Inr (Create_order_move (?moves ! nat (d_index d)))
        \<and> emit (d\<lparr>d_action := ''move''\<rparr>) (encode_moves b) (encode_switches b)
              ?moves (available_switches b)
            = emit d (encode_moves b) (encode_switches b) ?moves (available_switches b)"
    using rd da r0 r1 e1 e2 by simp
  then show "\<exists>d. read_decision dec = Inr d
        \<and> d_action d = ''force_switch''
        \<and> 0 \<le> d_index d \<and> d_index d < int (length ?moves)
        \<and> emit d (encode_moves b) (encode_switches b) ?moves (available_switches b)
            = Inr (Create_order_move (?moves ! nat (d_index d)))
        \<and> emit (d\<lparr>d_action := ''move''\<rparr>) (encode_moves b) (encode_switches b)
              ?moves (available_switches b)
            = emit d (encode_moves b) (encode_switches b) ?moves (available_switches b)"
    by (rule exI[where x=d])
qed

theorem force_switch_emits_move_witness:
  "fst (validate_decision (JDict [(''action'', JStr ''force_switch''), (''index'', JInt 1), (''reason'', JStr ''go'')])
      (rows_for_llm (encode_moves \<lparr> active_pokemon = None, opponent_active_pokemon = None,
       available_moves = [\<lparr> mv_id = Some ''tackle'', mv_name = None, mv_type = Some ''NORMAL'',
         mv_base_power = 40, mv_accuracy = PyFloat 1, mv_priority = 0,
         mv_damage_class = None, mv_current_pp = Some 35, mv_max_pp = Some 35 \<rparr>,
        \<lparr> mv_id = Some ''thunderbolt'', mv_name = None, mv_type = Some ''ELECTRIC'',
         mv_base_power = 90, mv_accuracy = PyFloat 1, mv_priority = 0,
         mv_damage_class = None, mv_current_pp = Some 15, mv_max_pp = Some 15 \<rparr>],
       available_switches = [\<lparr> p_species = Some ''onix'', p_name = None, p_types = [Some ''ROCK'', Some ''GROUND''],
         p_current_hp = Some 40, p_max_hp = Some 100, p_status = None \<rparr>],
       weather = None, terrain = None, turn = 3, force_switch = False \<rparr>)
         (encode_switches \<lparr> active_pokemon = None, opponent_active_pokemon = None,
       available_moves = [\<lparr> mv_id = Some ''tackle'', mv_name = None, mv_type = Some ''NORMAL'',
         mv_base_power = 40, mv_accuracy = PyFloat 1, mv_priority = 0,
         mv_damage_class = None, mv_current_pp = Some 35, mv_max_pp = Some 35 \<rparr>,
        \<lparr> mv_id = Some ''thunderbolt'', mv_name = None, mv_type = Some ''ELECTRIC'',
         mv_base_power = 90, mv_accuracy = PyFloat 1, mv_priority = 0,
         mv_damage_class = None, mv_current_pp = Some 15, mv_max_pp = Some 15 \<rparr>],
       available_switches = [\<lparr> p_species = Some ''onix'', p_name = None, p_types = [Some ''ROCK'', Some ''GROUND''],
         p_current_hp = Some 40, p_max_hp = Some 100, p_status = None \<rparr>],
       weather = None, terrain = None, turn = 3, force_switch = False \<rparr>))
      (encode_state \<lparr> active_pokemon = None, opponent_active_pokemon = None,
       available_moves = [\<lparr> mv_id = Some ''tackle'', mv_name = None, mv_type = Some ''NORMAL'',
         mv_base_power = 40, mv_accuracy = PyFloat 1, mv_priority = 0,
         mv_damage_class = None, mv_current_pp = Some 35, mv_max_pp = Some 35 \<rparr>,
        \<lparr> mv_id = Some ''thunderbolt'', mv_name = None, mv_type = Some ''ELECTRIC'',
         mv_base_power = 90, mv_accuracy = PyFloat 1, mv_priority = 0,
         mv_damage_class = None, mv_current_pp = Some 15, mv_max_pp = Some 15 \<rparr>],
       available_switches = [\<lparr> p_species = Some ''onix'', p_name = None, p_types = [Some ''ROCK'', Some ''GROUND''],
         p_current_hp = Some 40, p_max_hp = Some 100, p_status = None \<rparr>],
       weather = None, terrain = None, turn = 3, force_switch = False \<rparr>))
   \<and> dict_get [(''action'', JStr ''force_switch''), (''index'', JInt 1), (''reason'', JStr ''go'')] ''action'' = JStr ''force_switch''
   \<and> read_decision [(''action'', JStr ''force_switch''), (''index'', JInt 1), (''reason'', JStr ''go'')]
     = Inr \<lparr> d_action = ''force_switch'', d_index = 1, d_reason = Oracle_reason (JStr ''go'') \<rparr>
   \<and> emit \<lparr> d_action = ''force_switch'', d_index = 1, d_reason = Oracle_reason (JStr ''go'') \<rparr>
      (encode_moves \<lparr> active_pokemon = None, opponent_active_pokemon = None,
       available_moves = [\<lparr> mv_id = Some ''tackle'', mv_name = None, mv_type = Some ''NORMAL'',
         mv_base_power = 40, mv_accuracy = PyFloat 1, mv_priority = 0,
         mv_damage_class = None, mv_current_pp = Some 35, mv_max_pp = Some 35 \<rparr>,
        \<lparr> mv_id = Some ''thunderbolt'', mv_name = None, mv_type = Some ''ELECTRIC'',
         mv_base_power = 90, mv_accuracy = PyFloat 1, mv_priority = 0,
         mv_damage_class = None, mv_current_pp = Some 15, mv_max_pp = Some 15 \<rparr>],
       available_switches = [\<lparr> p_species = Some ''onix'', p_name = None, p_types = [Some ''ROCK'', Some ''GROUND''],
         p_current_hp = Some 40, p_max_hp = Some 100, p_status = None \<rparr>],
       weather = None, terrain = None, turn = 3, force_switch = False \<rparr>)
      (encode_switches \<lparr> active_pokemon = None, opponent_active_pokemon = None,
       available_moves = [\<lparr> mv_id = Some ''tackle'', mv_name = None, mv_type = Some ''NORMAL'',
         mv_base_power = 40, mv_accuracy = PyFloat 1, mv_priority = 0,
         mv_damage_class = None, mv_current_pp = Some 35, mv_max_pp = Some 35 \<rparr>,
        \<lparr> mv_id = Some ''thunderbolt'', mv_name = None, mv_type = Some ''ELECTRIC'',
         mv_base_power = 90, mv_accuracy = PyFloat 1, mv_priority = 0,
         mv_damage_class = None, mv_current_pp = Some 15, mv_max_pp = Some 15 \<rparr>],
       available_switches = [\<lparr> p_species = Some ''onix'', p_name = None, p_types = [Some ''ROCK'', Some ''GROUND''],
         p_current_hp = Some 40, p_max_hp = Some 100, p_status = None \<rparr>],
       weather = None, terrain = None, turn = 3, force_switch = False \<rparr>)
      (available_moves \<lparr> active_pokemon = None, opponent_active_pokemon = None,
       available_moves = [\<lparr> mv_id = Some ''tackle'', mv_name = None, mv_type = Some ''NORMAL'',
         mv_base_power = 40, mv_accuracy = PyFloat 1, mv_priority = 0,
         mv_damage_class = None, mv_current_pp = Some 35, mv_max_pp = Some 35 \<rparr>,
        \<lparr> mv_id = Some ''thunderbolt'', mv_name = None, mv_type = Some ''ELECTRIC'',
         mv_base_power = 90, mv_accuracy = PyFloat 1, mv_priority = 0,
         mv_damage_class = None, mv_current_pp = Some 15, mv_max_pp = Some 15 \<rparr>],
       available_switches = [\<lparr> p_species = Some ''onix'', p_name = None, p_types = [Some ''ROCK'', Some ''GROUND''],
         p_current_hp = Some 40, p_max_hp = Some 100, p_status = None \<rparr>],
       weather = None, terrain = None, turn = 3, force_switch = False \<rparr>)
      (available_switches \<lparr> active_pokemon = None, opponent_active_pokemon = None,
       available_moves = [\<lparr> mv_id = Some ''tackle'', mv_name = None, mv_type = Some ''NORMAL'',
         mv_base_power = 40, mv_accuracy = PyFloat 1, mv_priority = 0,
         mv_damage_class = None, mv_current_pp = Some 35, mv_max_pp = Some 35 \<rparr>,
        \<lparr> mv_id = Some ''thunderbolt'', mv_name = None, mv_type = Some ''ELECTRIC'',
         mv_base_power = 90, mv_accuracy = PyFloat 1, mv_priority = 0,
         mv_damage_class = None, mv_current_pp = Some 15, mv_max_pp = Some 15 \<rparr>],
       available_switches = [\<lparr> p_species = Some ''onix'', p_name = None, p_types = [Some ''ROCK'', Some ''GROUND''],
         p_current_hp = Some 40, p_max_hp = Some 100, p_status = None \<rparr>],
       weather = None, terrain = None, turn = 3, force_switch = False \<rparr>)
     = Inr (Create_order_move \<lparr> mv_id = Some ''thunderbolt'', mv_name = None, mv_type = Some ''ELECTRIC'',
         mv_base_power = 90, mv_accuracy = PyFloat 1, mv_priority = 0,
         mv_damage_class = None, mv_current_pp = Some 15, mv_max_pp = Some 15 \<rparr>)"
proof -
  have h: "fst (validate_decision (JDict [(''action'', JStr ''force_switch''), (''index'', JInt 1), (''reason'', JStr ''go'')])
      (rows_for_llm (encode_moves \<lparr> active_pokemon = None, opponent_active_pokemon = None,
       available_moves = [\<lparr> mv_id = Some ''tackle'', mv_name = None, mv_type = Some ''NORMAL'',
         mv_base_power = 40, mv_accuracy = PyFloat 1, mv_priority = 0,
         mv_damage_class = None, mv_current_pp = Some 35, mv_max_pp = Some 35 \<rparr>,
        \<lparr> mv_id = Some ''thunderbolt'', mv_name = None, mv_type = Some ''ELECTRIC'',
         mv_base_power = 90, mv_accuracy = PyFloat 1, mv_priority = 0,
         mv_damage_class = None, mv_current_pp = Some 15, mv_max_pp = Some 15 \<rparr>],
       available_switches = [\<lparr> p_species = Some ''onix'', p_name = None, p_types = [Some ''ROCK'', Some ''GROUND''],
         p_current_hp = Some 40, p_max_hp = Some 100, p_status = None \<rparr>],
       weather = None, terrain = None, turn = 3, force_switch = False \<rparr>)
         (encode_switches \<lparr> active_pokemon = None, opponent_active_pokemon = None,
       available_moves = [\<lparr> mv_id = Some ''tackle'', mv_name = None, mv_type = Some ''NORMAL'',
         mv_base_power = 40, mv_accuracy = PyFloat 1, mv_priority = 0,
         mv_damage_class = None, mv_current_pp = Some 35, mv_max_pp = Some 35 \<rparr>,
        \<lparr> mv_id = Some ''thunderbolt'', mv_name = None, mv_type = Some ''ELECTRIC'',
         mv_base_power = 90, mv_accuracy = PyFloat 1, mv_priority = 0,
         mv_damage_class = None, mv_current_pp = Some 15, mv_max_pp = Some 15 \<rparr>],
       available_switches = [\<lparr> p_species = Some ''onix'', p_name = None, p_types = [Some ''ROCK'', Some ''GROUND''],
         p_current_hp = Some 40, p_max_hp = Some 100, p_status = None \<rparr>],
       weather = None, terrain = None, turn = 3, force_switch = False \<rparr>))
      (encode_state \<lparr> active_pokemon = None, opponent_active_pokemon = None,
       available_moves = [\<lparr> mv_id = Some ''tackle'', mv_name = None, mv_type = Some ''NORMAL'',
         mv_base_power = 40, mv_accuracy = PyFloat 1, mv_priority = 0,
         mv_damage_class = None, mv_current_pp = Some 35, mv_max_pp = Some 35 \<rparr>,
        \<lparr> mv_id = Some ''thunderbolt'', mv_name = None, mv_type = Some ''ELECTRIC'',
         mv_base_power = 90, mv_accuracy = PyFloat 1, mv_priority = 0,
         mv_damage_class = None, mv_current_pp = Some 15, mv_max_pp = Some 15 \<rparr>],
       available_switches = [\<lparr> p_species = Some ''onix'', p_name = None, p_types = [Some ''ROCK'', Some ''GROUND''],
         p_current_hp = Some 40, p_max_hp = Some 100, p_status = None \<rparr>],
       weather = None, terrain = None, turn = 3, force_switch = False \<rparr>))
   \<and> dict_get [(''action'', JStr ''force_switch''), (''index'', JInt 1), (''reason'', JStr ''go'')] ''action'' = JStr ''force_switch''"
    by (simp add: n_moves_encode n_switches_encode dict_get_def allowed_actions_def)
  have rd: "read_decision [(''action'', JStr ''force_switch''), (''index'', JInt 1), (''reason'', JStr ''go'')]
     = Inr \<lparr> d_action = ''force_switch'', d_index = 1, d_reason = Oracle_reason (JStr ''go'') \<rparr>"
    by (simp add: read_decision_def dict_item_def dict_get_def)
  from h force_switch_emits_move [where dec = "[(''action'', JStr ''force_switch''), (''index'', JInt 1), (''reason'', JStr ''go'')]"
      and b = "\<lparr> active_pokemon = None, opponent_active_pokemon = None,
       available_moves = [\<lparr> mv_id = Some ''tackle'', mv_name = None, mv_type = Some ''NORMAL'',
         mv_base_power = 40, mv_accuracy = PyFloat 1, mv_priority = 0,
         mv_damage_class = None, mv_current_pp = Some 35, mv_max_pp = Some 35 \<rparr>,
        \<lparr> mv_id = Some ''thunderbolt'', mv_name = None, mv_type = Some ''ELECTRIC'',
         mv_base_power = 90, mv_accuracy = PyFloat 1, mv_priority = 0,
         mv_damage_class = None, mv_current_pp = Some 15, mv_max_pp = Some 15 \<rparr>],
       available_switches = [\<lparr> p_species = Some ''onix'', p_name = None, p_types = [Some ''ROCK'', Some ''GROUND''],
         p_current_hp = Some 40, p_max_hp = Some 100, p_status = None \<rparr>],
       weather = None, terrain = None, turn = 3, force_switch = False \<rparr>"
      and st = "encode_state \<lparr> active_pokemon = None, opponent_active_pokemon = None,
       available_moves = [\<lparr> mv_id = Some ''tackle'', mv_name = None, mv_type = Some ''NORMAL'',
         mv_base_power = 40, mv_accuracy = PyFloat 1, mv_priority = 0,
         mv_damage_class = None, mv_current_pp = Some 35, mv_max_pp = Some 35 \<rparr>,
        \<lparr> mv_id = Some ''thunderbolt'', mv_name = None, mv_type = Some ''ELECTRIC'',
         mv_base_power = 90, mv_accuracy = PyFloat 1, mv_priority = 0,
         mv_damage_class = None, mv_current_pp = Some 15, mv_max_pp = Some 15 \<rparr>],
       available_switches = [\<lparr> p_species = Some ''onix'', p_name = None, p_types = [Some ''ROCK'', Some ''GROUND''],
         p_current_hp = Some 40, p_max_hp = Some 100, p_status = None \<rparr>],
       weather = None, terrain = None, turn = 3, force_switch = False \<rparr>"]
  obtain d where d1: "read_decision [(''action'', JStr ''force_switch''), (''index'', JInt 1), (''reason'', JStr ''go'')] = Inr d"
    and d2: "emit d
      (encode_moves \<lparr> active_pokemon = None, opponent_active_pokemon = None,
       available_moves = [\<lparr> mv_id = Some ''tackle'', mv_name = None, mv_type = Some ''NORMAL'',
         mv_base_power = 40, mv_accuracy = PyFloat 1, mv_priority = 0,
         mv_damage_class = None, mv_current_pp = Some 35, mv_max_pp = Some 35 \<rparr>,
        \<lparr> mv_id = Some ''thunderbolt'', mv_name = None, mv_type = Some ''ELECTRIC'',
         mv_base_power = 90, mv_accuracy = PyFloat 1, mv_priority = 0,
         mv_damage_class = None, mv_current_pp = Some 15, mv_max_pp = Some 15 \<rparr>],
       available_switches = [\<lparr> p_species = Some ''onix'', p_name = None, p_types = [Some ''ROCK'', Some ''GROUND''],
         p_current_hp = Some 40, p_max_hp = Some 100, p_status = None \<rparr>],
       weather = None, terrain = None, turn = 3, force_switch = False \<rparr>)
      (encode_switches \<lparr> active_pokemon = None, opponent_active_pokemon = None,
       available_moves = [\<lparr> mv_id = Some ''tackle'', mv_name = None, mv_type = Some ''NORMAL'',
         mv_base_power = 40, mv_accuracy = PyFloat 1, mv_priority = 0,
         mv_damage_class = None, mv_current_pp = Some 35, mv_max_pp = Some 35 \<rparr>,
        \<lparr> mv_id = Some ''thunderbolt'', mv_name = None, mv_type = Some ''ELECTRIC'',
         mv_base_power = 90, mv_accuracy = PyFloat 1, mv_priority = 0,
         mv_damage_class = None, mv_current_pp = Some 15, mv_max_pp = Some 15 \<rparr>],
       available_switches = [\<lparr> p_species = Some ''onix'', p_name = None, p_types = [Some ''ROCK'', Some ''GROUND''],
         p_current_hp = Some 40, p_max_hp = Some 100, p_status = None \<rparr>],
       weather = None, terrain = None, turn = 3, force_switch = False \<rparr>)
      (available_moves \<lparr> active_pokemon = None, opponent_active_pokemon = None,
       available_moves = [\<lparr> mv_id = Some ''tackle'', mv_name = None, mv_type = Some ''NORMAL'',
         mv_base_power = 40, mv_accuracy = PyFloat 1, mv_priority = 0,
         mv_damage_class = None, mv_current_pp = Some 35, mv_max_pp = Some 35 \<rparr>,
        \<lparr> mv_id = Some ''thunderbolt'', mv_name = None, mv_type = Some ''ELECTRIC'',
         mv_base_power = 90, mv_accuracy = PyFloat 1, mv_priority = 0,
         mv_damage_class = None, mv_current_pp = Some 15, mv_max_pp = Some 15 \<rparr>],
       available_switches = [\<lparr> p_species = Some ''onix'', p_name = None, p_types = [Some ''ROCK'', Some ''GROUND''],
         p_current_hp = Some 40, p_max_hp = Some 100, p_status = None \<rparr>],
       weather = None, terrain = None, turn = 3, force_switch = False \<rparr>)
      (available_switches \<lparr> active_pokemon = None, opponent_active_pokemon = None,
       available_moves = [\<lparr> mv_id = Some ''tackle'', mv_name = None, mv_type = Some ''NORMAL'',
         mv_base_power = 40, mv_accuracy = PyFloat 1, mv_priority = 0,
         mv_damage_class = None, mv_current_pp = Some 35, mv_max_pp = Some 35 \<rparr>,
        \<lparr> mv_id = Some ''thunderbolt'', mv_name = None, mv_type = Some ''ELECTRIC'',
         mv_base_power = 90, mv_accuracy = PyFloat 1, mv_priority = 0,
         mv_damage_class = None, mv_current_pp = Some 15, mv_max_pp = Some 15 \<rparr>],
       available_switches = [\<lparr> p_species = Some ''onix'', p_name = None, p_types = [Some ''ROCK'', Some ''GROUND''],
         p_current_hp = Some 40, p_max_hp = Some 100, p_status = None \<rparr>],
       weather = None, terrain = None, turn = 3, force_switch = False \<rparr>)
        = Inr (Create_order_move (available_moves \<lparr> active_pokemon = None, opponent_active_pokemon = None,
       available_moves = [\<lparr> mv_id = Some ''tackle'', mv_name = None, mv_type = Some ''NORMAL'',
         mv_base_power = 40, mv_accuracy = PyFloat 1, mv_priority = 0,
         mv_damage_class = None, mv_current_pp = Some 35, mv_max_pp = Some 35 \<rparr>,
        \<lparr> mv_id = Some ''thunderbolt'', mv_name = None, mv_type = Some ''ELECTRIC'',
         mv_base_power = 90, mv_accuracy = PyFloat 1, mv_priority = 0,
         mv_damage_class = None, mv_current_pp = Some 15, mv_max_pp = Some 15 \<rparr>],
       available_switches = [\<lparr> p_species = Some ''onix'', p_name = None, p_types = [Some ''ROCK'', Some ''GROUND''],
         p_current_hp = Some 40, p_max_hp = Some 100, p_status = None \<rparr>],
       weather = None, terrain = None, turn = 3, force_switch = False \<rparr> ! nat (d_index d)))"
    by blast
  from d1 rd have deq: "d = \<lparr> d_action = ''force_switch'', d_index = 1, d_reason = Oracle_reason (JStr ''go'') \<rparr>" by simp
  have e: "emit \<lparr> d_action = ''force_switch'', d_index = 1, d_reason = Oracle_reason (JStr ''go'') \<rparr>
      (encode_moves \<lparr> active_pokemon = None, opponent_active_pokemon = None,
       available_moves = [\<lparr> mv_id = Some ''tackle'', mv_name = None, mv_type = Some ''NORMAL'',
         mv_base_power = 40, mv_accuracy = PyFloat 1, mv_priority = 0,
         mv_damage_class = None, mv_current_pp = Some 35, mv_max_pp = Some 35 \<rparr>,
        \<lparr> mv_id = Some ''thunderbolt'', mv_name = None, mv_type = Some ''ELECTRIC'',
         mv_base_power = 90, mv_accuracy = PyFloat 1, mv_priority = 0,
         mv_damage_class = None, mv_current_pp = Some 15, mv_max_pp = Some 15 \<rparr>],
       available_switches = [\<lparr> p_species = Some ''onix'', p_name = None, p_types = [Some ''ROCK'', Some ''GROUND''],
         p_current_hp = Some 40, p_max_hp = Some 100, p_status = None \<rparr>],
       weather = None, terrain = None, turn = 3, force_switch = False \<rparr>)
      (encode_switches \<lparr> active_pokemon = None, opponent_active_pokemon = None,
       available_moves = [\<lparr> mv_id = Some ''tackle'', mv_name = None, mv_type = Some ''NORMAL'',
         mv_base_power = 40, mv_accuracy = PyFloat 1, mv_priority = 0,
         mv_damage_class = None, mv_current_pp = Some 35, mv_max_pp = Some 35 \<rparr>,
        \<lparr> mv_id = Some ''thunderbolt'', mv_name = None, mv_type = Some ''ELECTRIC'',
         mv_base_power = 90, mv_accuracy = PyFloat 1, mv_priority = 0,
         mv_damage_class = None, mv_current_pp = Some 15, mv_max_pp = Some 15 \<rparr>],
       available_switches = [\<lparr> p_species = Some ''onix'', p_name = None, p_types = [Some ''ROCK'', Some ''GROUND''],
         p_current_hp = Some 40, p_max_hp = Some 100, p_status = None \<rparr>],
       weather = None, terrain = None, turn = 3, force_switch = False \<rparr>)
      (available_moves \<lparr> active_pokemon = None, opponent_active_pokemon = None,
       available_moves = [\<lparr> mv_id = Some ''tackle'', mv_name = None, mv_type = Some ''NORMAL'',
         mv_base_power = 40, mv_accuracy = PyFloat 1, mv_priority = 0,
         mv_damage_class = None, mv_current_pp = Some 35, mv_max_pp = Some 35 \<rparr>,
        \<lparr> mv_id = Some ''thunderbolt'', mv_name = None, mv_type = Some ''ELECTRIC'',
         mv_base_power = 90, mv_accuracy = PyFloat 1, mv_priority = 0,
         mv_damage_class = None, mv_current_pp = Some 15, mv_max_pp = Some 15 \<rparr>],
       available_switches = [\<lparr> p_species = Some ''onix'', p_name = None, p_types = [Some ''ROCK'', Some ''GROUND''],
         p_current_hp = Some 40, p_max_hp = Some 100, p_status = None \<rparr>],
       weather = None, terrain = None, turn = 3, force_switch = False \<rparr>)
      (available_switches \<lparr> active_pokemon = None, opponent_active_pokemon = None,
       available_moves = [\<lparr> mv_id = Some ''tackle'', mv_name = None, mv_type = Some ''NORMAL'',
         mv_base_power = 40, mv_accuracy = PyFloat 1, mv_priority = 0,
         mv_damage_class = None, mv_current_pp = Some 35, mv_max_pp = Some 35 \<rparr>,
        \<lparr> mv_id = Some ''thunderbolt'', mv_name = None, mv_type = Some ''ELECTRIC'',
         mv_base_power = 90, mv_accuracy = PyFloat 1, mv_priority = 0,
         mv_damage_class = None, mv_current_pp = Some 15, mv_max_pp = Some 15 \<rparr>],
       available_switches = [\<lparr> p_species = Some ''onix'', p_name = None, p_types = [Some ''ROCK'', Some ''GROUND''],
         p_current_hp = Some 40, p_max_hp = Some 100, p_status = None \<rparr>],
       weather = None, terrain = None, turn = 3, force_switch = False \<rparr>)
     = Inr (Create_order_move \<lparr> mv_id = Some ''thunderbolt'', mv_name = None, mv_type = Some ''ELECTRIC'',
         mv_base_power = 90, mv_accuracy = PyFloat 1, mv_priority = 0,
         mv_damage_class = None, mv_current_pp = Some 15, mv_max_pp = Some 15 \<rparr>)"
    using d2 unfolding deq by simp
  from h rd e show ?thesis by (intro conjI) (simp_all only:)
qed

subsection \<open>The accuracy of an encoded move\<close>





end
